theory Spec2Isabelle
  imports Complex_Main "HOL-Library.Word" "HOL-Library.Sublist"
begin

section \<open>Data model\<close>

text \<open>
  Strings are byte strings (the UTF-8 encoding of the JavaScript string), a request body
  is a list of bytes. A timestamp is the number of milliseconds since the epoch; its
  ISO-8601 rendering (\<open>toISOString\<close>) is not modelled.
\<close>

type_synonym bytes = "8 word list"

type_synonym timestamp = int

text \<open>
  The record both upload paths build and store with \<open>KV.put(kvKey, JSON.stringify(metadata))\<close>.
  The readers apply \<open>JSON.parse\<close> to what they get back; on an object of strings, an
  integer and a boolean that returns the object that was written, so the metadata store
  holds the record itself.
\<close>

record BlobMetadata =
  key :: string
  namespace :: string
  size' :: int
  contentType :: string
  uploadedAt :: timestamp
  isPublic :: bool

text \<open>What \<open>bucket.put(r2Key, body, {httpMetadata: {contentType}})\<close> stores.\<close>

record R2Object =
  body :: bytes
  httpMetadata_contentType :: string

text \<open>The two bucket bindings of the environment, \<open>c.env.R2\<close> and \<open>c.env.R2_PUBLIC\<close>.\<close>

datatype binding = R2_binding | R2_PUBLIC_binding

record S3ClientConfig =
  region :: string
  endpoint :: string
  accessKeyId :: string
  secretAccessKey :: string

record PutObjectCommand =
  Bucket :: string
  Key :: string
  ContentType :: string
  ContentLength :: int

text \<open>
  Every awaited call to a collaborator is one entry of the trace, in the order the handler
  makes them, with a flag telling whether the call completed (\<open>True\<close>) or rejected
  (\<open>False\<close>, the awaited promise throws).
\<close>

datatype io =
    KV_get_op string
  | KV_put_op string BlobMetadata
  | Bucket_get_op binding string
  | Bucket_put_op binding string R2Object
  | GetSignedUrl_op S3ClientConfig PutObjectCommand nat

text \<open>
  The environment \<open>c.env\<close> of a request: the metadata store \<open>KV\<close>, the private and the
  public object store, the three signing credentials (absent or a string), and what the
  model needs of the outside world: the clock (indexed by the number of collaborator calls
  made so far), the URL signer of the AWS SDK, which calls reject, and the trace.
\<close>

record Env =
  KV :: "string \<rightharpoonup> BlobMetadata"
  R2 :: "string \<rightharpoonup> R2Object"
  R2_PUBLIC :: "string \<rightharpoonup> R2Object"
  R2_ACCOUNT_ID :: "string option"
  R2_ACCESS_KEY_ID :: "string option"
  R2_SECRET_ACCESS_KEY :: "string option"
  clock :: "nat \<Rightarrow> timestamp"
  signer :: "S3ClientConfig \<Rightarrow> PutObjectCommand \<Rightarrow> nat \<Rightarrow> timestamp \<Rightarrow> string"
  rejects :: "nat \<Rightarrow> bool"
  trace :: "(io \<times> bool) list"

text \<open>A handler returns a response or lets an exception escape.\<close>

datatype 'a outcome = Threw | Returned 'a

record DownloadHeaders =
  Content_Type :: string
  Content_Length :: int
  Content_Disposition :: string

text \<open>
  \<open>ErrorJson status code message\<close> is \<open>c.json({code, message}, status)\<close>;
  \<open>Content_Length\<close> holds the number whose \<open>String(...)\<close> is the header.
\<close>

datatype response =
    ErrorJson nat nat string
  | UploadJson BlobMetadata
  | GetJson string BlobMetadata
  | PresignJson string timestamp
  | Stream bytes DownloadHeaders

text \<open>A parsed JSON request body; a number is the value of the parsed double.\<close>

datatype json =
    JNull
  | JBool bool
  | JNum rat
  | JStr string
  | JArr "json list"
  | JObj "(string \<times> json) list"

record UploadRequest =
  x_blob_namespace :: "string option"
  x_blob_key :: "string option"
  x_blob_public :: "string option"
  content_type :: "string option"
  arrayBuffer :: bytes

section \<open>JavaScript helpers\<close>

text \<open>\<open>!x\<close> on a value that is \<open>undefined\<close> or a string.\<close>

definition falsy :: "string option \<Rightarrow> bool" where
  "falsy x = (case x of None \<Rightarrow> True | Some s \<Rightarrow> s = [])"

text \<open>\<open>x || d\<close> on a value that is \<open>undefined\<close> or a string.\<close>

definition or_default :: "string option \<Rightarrow> string \<Rightarrow> string" where
  "or_default x d = (case x of None \<Rightarrow> d | Some s \<Rightarrow> if s = [] then d else s)"

definition uri_unreserved :: "char \<Rightarrow> bool" where
  "uri_unreserved ch =
     (ch \<in> set (''ABCDEFGHIJKLMNOPQRSTUVWXYZabcdefghijklmnopqrstuvwxyz0123456789-_.!~*()''
                @ [CHR 0x27]))"

definition hex_digit :: "nat \<Rightarrow> char" where
  "hex_digit n = ''0123456789ABCDEF'' ! (n mod 16)"

definition encodeURIComponent :: "string \<Rightarrow> string" where
  "encodeURIComponent s =
     concat (map (\<lambda>ch. if uri_unreserved ch then [ch]
                        else [CHR ''%'', hex_digit (of_char ch div 16), hex_digit (of_char ch mod 16)]) s)"

section \<open>The collaborators\<close>

definition now :: "Env \<Rightarrow> timestamp" where
  "now c = clock c (length (trace c))"

definition attempt :: "Env \<Rightarrow> io \<Rightarrow> bool \<times> Env" where
  "attempt c opn =
     (let ok = \<not> rejects c (length (trace c))
      in (ok, c\<lparr>trace := trace c @ [(opn, ok)]\<rparr>))"

text \<open>\<open>KV.get\<close>: \<open>None\<close> when the call rejects, else the stored value or \<open>null\<close>.\<close>

definition KV_get :: "Env \<Rightarrow> string \<Rightarrow> BlobMetadata option option \<times> Env" where
  "KV_get c k =
     (case attempt c (KV_get_op k) of
        (ok, c1) \<Rightarrow> (if ok then Some (KV c k) else None, c1))"

definition KV_put :: "Env \<Rightarrow> string \<Rightarrow> BlobMetadata \<Rightarrow> bool \<times> Env" where
  "KV_put c k v =
     (case attempt c (KV_put_op k v) of
        (ok, c1) \<Rightarrow> (ok, if ok then c1\<lparr>KV := (KV c1)(k \<mapsto> v)\<rparr> else c1))"

text \<open>The objects of the store a binding stands for, and that store after a write.\<close>

definition bucket_of :: "Env \<Rightarrow> binding \<Rightarrow> (string \<rightharpoonup> R2Object)" where
  "bucket_of c b = (case b of R2_binding \<Rightarrow> R2 c | R2_PUBLIC_binding \<Rightarrow> R2_PUBLIC c)"

definition store_object :: "binding \<Rightarrow> string \<Rightarrow> R2Object \<Rightarrow> Env \<Rightarrow> Env" where
  "store_object b k obj c =
     (case b of R2_binding \<Rightarrow> c\<lparr>R2 := (R2 c)(k \<mapsto> obj)\<rparr>
              | R2_PUBLIC_binding \<Rightarrow> c\<lparr>R2_PUBLIC := (R2_PUBLIC c)(k \<mapsto> obj)\<rparr>)"

text \<open>\<open>bucket.get\<close>: \<open>None\<close> when the call rejects, else the object or \<open>null\<close>.\<close>

definition bucket_get :: "Env \<Rightarrow> binding \<Rightarrow> string \<Rightarrow> R2Object option option \<times> Env" where
  "bucket_get c b k =
     (case attempt c (Bucket_get_op b k) of
        (ok, c1) \<Rightarrow> (if ok then Some (bucket_of c b k) else None, c1))"

definition bucket_put :: "Env \<Rightarrow> binding \<Rightarrow> string \<Rightarrow> R2Object \<Rightarrow> bool \<times> Env" where
  "bucket_put c b k obj =
     (case attempt c (Bucket_put_op b k obj) of
        (ok, c1) \<Rightarrow> (ok, if ok then store_object b k obj c1 else c1))"

definition getSignedUrl :: "Env \<Rightarrow> S3ClientConfig \<Rightarrow> PutObjectCommand \<Rightarrow> nat \<Rightarrow> string option \<times> Env" where
  "getSignedUrl c s3Client command expiresIn =
     (case attempt c (GetSignedUrl_op s3Client command expiresIn) of
        (ok, c1) \<Rightarrow> (if ok then Some (signer c s3Client command expiresIn (now c)) else None, c1))"

section \<open>Direct upload\<close>

definition BlobUploadEndpoint_handle :: "Env \<Rightarrow> UploadRequest \<Rightarrow> response outcome \<times> Env" where
  "BlobUploadEndpoint_handle c req =
     (let isPublic = (x_blob_public req = Some ''true'');
          contentType = or_default (content_type req) ''application/octet-stream''
      in if falsy (x_blob_namespace req) \<or> falsy (x_blob_key req)
         then (Returned (ErrorJson 400 400 ''Missing x-blob-namespace or x-blob-key header''), c)
         else
           let namespace = or_default (x_blob_namespace req) [];
               key = or_default (x_blob_key req) [];
               body = arrayBuffer req;
               size = int (length body)
           in if size = 0 then (Returned (ErrorJson 400 400 ''Empty file''), c)
              else
                let bucket = (if isPublic then R2_PUBLIC_binding else R2_binding);
                    r2Key = namespace @ '':'' @ key
                in case bucket_put c bucket r2Key
                          \<lparr>body = body, httpMetadata_contentType = contentType\<rparr> of
                     (False, c1) \<Rightarrow> (Threw, c1)
                   | (True, c1) \<Rightarrow>
                       let metadata = \<lparr>key = key, namespace = namespace, size' = size,
                                       contentType = contentType, uploadedAt = now c1,
                                       isPublic = isPublic\<rparr>;
                           kvKey = ''__BLOB:'' @ namespace @ '':'' @ key
                       in (case KV_put c1 kvKey metadata of
                             (False, c2) \<Rightarrow> (Threw, c2)
                           | (True, c2) \<Rightarrow> (Returned (UploadJson metadata), c2)))"

section \<open>Stream download\<close>

definition registerBlobDownloadRoute :: "Env \<Rightarrow> string \<Rightarrow> string \<Rightarrow> response outcome \<times> Env" where
  "registerBlobDownloadRoute c param_namespace param_key =
     (let namespace = param_namespace; key = param_key
      in if namespace = [] \<or> key = []
      then (Returned (ErrorJson 400 400 ''Missing namespace or key''), c)
      else
        let kvKey = ''__BLOB:'' @ namespace @ '':'' @ key
        in case KV_get c kvKey of
             (None, c1) \<Rightarrow> (Threw, c1)
           | (Some None, c1) \<Rightarrow> (Returned (ErrorJson 404 404 ''Blob not found''), c1)
           | (Some (Some metadata), c1) \<Rightarrow>
               let r2Key = namespace @ '':'' @ key;
                   bucket = (if isPublic metadata then R2_PUBLIC_binding else R2_binding)
               in (case bucket_get c1 bucket r2Key of
                    (None, c2) \<Rightarrow> (Threw, c2)
                  | (Some None, c2) \<Rightarrow>
                      (Returned (ErrorJson 404 404 ''Blob not found in storage''), c2)
                  | (Some (Some object), c2) \<Rightarrow>
                      (Returned (Stream (body object)
                         \<lparr>Content_Type = or_default (Some (contentType metadata))
                                           ''application/octet-stream'',
                          Content_Length = size' metadata,
                          Content_Disposition =
                            ''attachment; filename=\"'' @ encodeURIComponent key @ ''\"''\<rparr>), c2)))"

section \<open>Get reference\<close>

text \<open>
  The handler from \<open>data.body\<close> on: the request schema \<open>BlobGetRequest\<close> is declared in
  \<open>types\<close>, so the validated namespace and key are the arguments. \<open>gatewayOrigin\<close> is
  \<open>new URL(c.req.url).origin\<close>.
\<close>

definition BlobGetEndpoint_handle :: "Env \<Rightarrow> string \<Rightarrow> string \<Rightarrow> string \<Rightarrow> response outcome \<times> Env" where
  "BlobGetEndpoint_handle c gatewayOrigin body_namespace body_key =
     (let namespace = body_namespace; key = body_key;
          kvKey = ''__BLOB:'' @ namespace @ '':'' @ key
      in case KV_get c kvKey of
           (None, c1) \<Rightarrow> (Threw, c1)
         | (Some None, c1) \<Rightarrow> (Returned (ErrorJson 404 404 ''Blob not found''), c1)
         | (Some (Some metadata), c1) \<Rightarrow>
             let url = gatewayOrigin @ ''/blob/download/'' @ encodeURIComponent namespace
                       @ ''/'' @ encodeURIComponent key
             in (Returned (GetJson url metadata), c1))"

section \<open>Presigned upload\<close>

text \<open>\<open>Number.isInteger\<close>, the test behind \<open>z.number().int()\<close>.\<close>

definition is_integer :: "rat \<Rightarrow> bool" where
  "is_integer r = (of_int \<lfloor>r\<rfloor> = r)"

text \<open>The field schemas of \<open>PresignUploadRequest\<close>; \<open>None\<close> is a failed parse.\<close>

fun z_string :: "json option \<Rightarrow> string option" where
  "z_string (Some (JStr s)) = Some s"
| "z_string _ = None"

fun z_number_int_positive :: "json option \<Rightarrow> int option" where
  "z_number_int_positive (Some (JNum r)) = (if is_integer r \<and> 0 < r then Some \<lfloor>r\<rfloor> else None)"
| "z_number_int_positive _ = None"

fun z_boolean_default :: "bool \<Rightarrow> json option \<Rightarrow> bool option" where
  "z_boolean_default d None = Some d"
| "z_boolean_default d (Some (JBool b)) = Some b"
| "z_boolean_default d _ = None"

text \<open>
  \<open>NamespaceValue\<close> is declared in \<open>types\<close>: a string schema with its own constraints.
  It is the parameter \<open>nsv\<close>, the set of strings that schema accepts.
\<close>

definition z_namespace :: "(string \<Rightarrow> bool) \<Rightarrow> json option \<Rightarrow> string option" where
  "z_namespace nsv v = (case z_string v of None \<Rightarrow> None | Some s \<Rightarrow> if nsv s then Some s else None)"

definition PresignUploadRequest_safeParse ::
    "(string \<Rightarrow> bool) \<Rightarrow> json \<Rightarrow> (string \<times> string \<times> string \<times> int \<times> bool) option" where
  "PresignUploadRequest_safeParse nsv j =
     (case j of
        JObj props \<Rightarrow>
          Option.bind (z_namespace nsv (map_of props ''namespace'')) (\<lambda>namespace.
          Option.bind (z_string (map_of props ''key'')) (\<lambda>key.
          Option.bind (z_string (map_of props ''contentType'')) (\<lambda>contentType.
          Option.bind (z_number_int_positive (map_of props ''size'')) (\<lambda>size.
          Option.bind (z_boolean_default False (map_of props ''isPublic'')) (\<lambda>isPublic.
            Some (namespace, key, contentType, size, isPublic))))))
      | _ \<Rightarrow> None)"

text \<open>
  The request body is \<open>Some j\<close> when \<open>c.req.json()\<close> yields the value \<open>j\<close> and \<open>None\<close>
  when it throws (the body is not JSON).
\<close>

definition BlobPresignUploadEndpoint_handle ::
    "(string \<Rightarrow> bool) \<Rightarrow> Env \<Rightarrow> json option \<Rightarrow> response outcome \<times> Env" where
  "BlobPresignUploadEndpoint_handle nsv c request_json =
     (if falsy (R2_ACCOUNT_ID c) \<or> falsy (R2_ACCESS_KEY_ID c) \<or> falsy (R2_SECRET_ACCESS_KEY c)
      then (Returned (ErrorJson 503 503 ''R2 credentials not configured for presigned URLs''), c)
      else
        case request_json of
          None \<Rightarrow> (Threw, c)
        | Some parsed_json \<Rightarrow>
            (case PresignUploadRequest_safeParse nsv parsed_json of
               None \<Rightarrow> (Returned (ErrorJson 400 400 ''Invalid request body''), c)
             | Some parsed_data \<Rightarrow>
                 let (namespace, key, contentType, size, isPublic) = parsed_data;
                     bucketName = (if isPublic then ''federise-objects-public'' else ''federise-objects'');
                     r2Key = namespace @ '':'' @ key;
                     s3Client = \<lparr>region = ''auto'',
                                 endpoint = ''https://'' @ or_default (R2_ACCOUNT_ID c) []
                                            @ ''.r2.cloudflarestorage.com'',
                                 accessKeyId = or_default (R2_ACCESS_KEY_ID c) [],
                                 secretAccessKey = or_default (R2_SECRET_ACCESS_KEY c) []\<rparr>;
                     expiresIn = 3600;
                     command = \<lparr>Bucket = bucketName, Key = r2Key, ContentType = contentType,
                                ContentLength = size\<rparr>
                 in (case getSignedUrl c s3Client command expiresIn of
                      (None, c1) \<Rightarrow> (Threw, c1)
                    | (Some uploadUrl, c1) \<Rightarrow>
                        let expiresAt = now c1 + int expiresIn * 1000;
                            metadata = \<lparr>key = key, namespace = namespace, size' = size,
                                        contentType = contentType, uploadedAt = now c1,
                                        isPublic = isPublic\<rparr>;
                            kvKey = ''__BLOB:'' @ namespace @ '':'' @ key
                        in (case KV_put c1 kvKey metadata of
                              (False, c2) \<Rightarrow> (Threw, c2)
                            | (True, c2) \<Rightarrow> (Returned (PresignJson uploadUrl expiresAt), c2)))))"

section \<open>Concrete inputs\<close>

text \<open>
  An environment with empty stores, all three credentials set and no rejecting call; the
  same without the secret key; a signer that only assembles the target; a
  \<open>NamespaceValue\<close> that accepts every non-empty string; a sample upload and a sample
  presign body.
\<close>

definition sample_signer :: "S3ClientConfig \<Rightarrow> PutObjectCommand \<Rightarrow> nat \<Rightarrow> timestamp \<Rightarrow> string" where
  "sample_signer s3Client command expiresIn t = endpoint s3Client @ ''/'' @ Bucket command @ ''/'' @ Key command"

definition empty_env :: Env where
  "empty_env =
     \<lparr>KV = Map.empty, R2 = Map.empty, R2_PUBLIC = Map.empty,
      R2_ACCOUNT_ID = Some ''acct'', R2_ACCESS_KEY_ID = Some ''id'',
      R2_SECRET_ACCESS_KEY = Some ''secret'',
      clock = (\<lambda>n. 1700000000000 + int n), signer = sample_signer,
      rejects = (\<lambda>n. False), trace = []\<rparr>"

definition unconfigured_env :: Env where
  "unconfigured_env = empty_env\<lparr>R2_SECRET_ACCESS_KEY := None\<rparr>"

text \<open>An environment whose first collaborator call rejects.\<close>

definition failing_env :: Env where
  "failing_env = empty_env\<lparr>rejects := (\<lambda>n. n = 0)\<rparr>"

definition nonempty_namespace :: "string \<Rightarrow> bool" where
  "nonempty_namespace s = (s \<noteq> [])"

definition hello :: bytes where
  "hello = [104, 101, 108, 108, 111]"

definition readme_upload :: "string option \<Rightarrow> bytes \<Rightarrow> UploadRequest" where
  "readme_upload pub payload =
     \<lparr>x_blob_namespace = Some ''docs'', x_blob_key = Some ''readme.txt'',
      x_blob_public = pub, content_type = Some ''text/plain'', arrayBuffer = payload\<rparr>"

definition presign_body :: "string \<Rightarrow> rat \<Rightarrow> json" where
  "presign_body k n =
     JObj [(''namespace'', JStr ''docs''), (''key'', JStr k),
           (''contentType'', JStr ''text/plain''), (''size'', JNum n)]"

section \<open>Notions the properties are stated with\<close>

text \<open>The signer call of a presign request, as the handler assembles it.\<close>

definition sign_call :: "Env \<Rightarrow> string \<Rightarrow> string \<Rightarrow> string \<Rightarrow> int \<Rightarrow> bool \<Rightarrow> io" where
  "sign_call c ns k ct n p =
     GetSignedUrl_op
       \<lparr>region = ''auto'',
        endpoint = ''https://'' @ or_default (R2_ACCOUNT_ID c) [] @ ''.r2.cloudflarestorage.com'',
        accessKeyId = or_default (R2_ACCESS_KEY_ID c) [],
        secretAccessKey = or_default (R2_SECRET_ACCESS_KEY c) []\<rparr>
       \<lparr>Bucket = (if p then ''federise-objects-public'' else ''federise-objects''),
        Key = ns @ '':'' @ k, ContentType = ct, ContentLength = n\<rparr>
       3600"

text \<open>
  The two derived keys, from the template literals \<open>`${namespace}:${key}`\<close> and
  \<open>`__BLOB:${namespace}:${key}`\<close>.
\<close>

definition r2Key_of :: "string \<Rightarrow> string \<Rightarrow> string" where
  "r2Key_of ns k = ns @ '':'' @ k"

definition kvKey_of :: "string \<Rightarrow> string \<Rightarrow> string" where
  "kvKey_of ns k = ''__BLOB:'' @ ns @ '':'' @ k"

text \<open>The collaborator calls a handler made: what it appended to the trace.\<close>

definition new_events :: "Env \<Rightarrow> Env \<Rightarrow> (io \<times> bool) list" where
  "new_events c c' = drop (length (trace c)) (trace c')"

text \<open>
  In a list of calls, every metadata write comes after an object write that completed;
  the flag tells whether one has been seen.
\<close>

fun metadata_after_object :: "bool \<Rightarrow> (io \<times> bool) list \<Rightarrow> bool" where
  "metadata_after_object written [] = True"
| "metadata_after_object written ((Bucket_put_op b k obj, ok) # es) =
     metadata_after_object (written \<or> ok) es"
| "metadata_after_object written ((KV_put_op k v, ok) # es) =
     (written \<and> metadata_after_object written es)"
| "metadata_after_object written (e # es) = metadata_after_object written es"

text \<open>A call addresses the blob \<open>(ns, k)\<close> through its derived keys.\<close>

fun addresses :: "string \<Rightarrow> string \<Rightarrow> io \<Rightarrow> bool" where
  "addresses ns k (KV_get_op kk) = (kk = kvKey_of ns k)"
| "addresses ns k (KV_put_op kk v) = (kk = kvKey_of ns k)"
| "addresses ns k (Bucket_get_op b kk) = (kk = r2Key_of ns k)"
| "addresses ns k (Bucket_put_op b kk obj) = (kk = r2Key_of ns k)"
| "addresses ns k (GetSignedUrl_op s3Client command expiresIn) = (Key command = r2Key_of ns k)"

section \<open>The handlers, branch by branch\<close>

subsection \<open>Stores\<close>

lemma store_object_fields [simp]:
  "KV (store_object b k obj c) = KV c"
  "trace (store_object b k obj c) = trace c"
  "rejects (store_object b k obj c) = rejects c"
  "clock (store_object b k obj c) = clock c"
  "bucket_of (store_object b k obj c) b = (bucket_of c b)(k \<mapsto> obj)"
  "b' \<noteq> b \<Longrightarrow> bucket_of (store_object b k obj c) b' = bucket_of c b'"
  by (cases b; cases b'; simp add: store_object_def bucket_of_def)+

lemma bucket_of_fields [simp]:
  "bucket_of (c\<lparr>trace := t\<rparr>) b = bucket_of c b"
  "bucket_of (c\<lparr>KV := m\<rparr>) b = bucket_of c b"
  by (cases b; simp add: bucket_of_def)+

lemma store_object_trace [simp]:
  "store_object b k obj (c\<lparr>trace := t\<rparr>) = (store_object b k obj c)\<lparr>trace := t\<rparr>"
  by (cases b) (simp_all add: store_object_def)

lemma bucket_of_R2: "bucket_of c R2_binding = R2 c" "bucket_of c R2_PUBLIC_binding = R2_PUBLIC c"
  by (simp_all add: bucket_of_def)

lemma new_events_appended [simp]:
  "trace c' = trace c @ evs \<Longrightarrow> new_events c c' = evs"
  by (simp add: new_events_def)

lemma new_events_none [simp]: "new_events c c = []"
  by (simp add: new_events_def)

lemma not_falsy_iff: "\<not> falsy x \<longleftrightarrow> (\<exists>s. x = Some s \<and> s \<noteq> [])"
  by (cases x) (simp_all add: falsy_def)

subsection \<open>Direct upload\<close>

lemma upload_missing_identifier:
  "falsy (x_blob_namespace req) \<or> falsy (x_blob_key req) \<Longrightarrow>
   BlobUploadEndpoint_handle c req =
     (Returned (ErrorJson 400 400 ''Missing x-blob-namespace or x-blob-key header''), c)"
  by (simp add: BlobUploadEndpoint_handle_def)

lemma upload_empty_payload:
  "\<not> falsy (x_blob_namespace req) \<Longrightarrow> \<not> falsy (x_blob_key req) \<Longrightarrow> arrayBuffer req = [] \<Longrightarrow>
   BlobUploadEndpoint_handle c req = (Returned (ErrorJson 400 400 ''Empty file''), c)"
  by (simp add: BlobUploadEndpoint_handle_def)

lemma upload_object_write_rejected:
  assumes "x_blob_namespace req = Some ns" and "ns \<noteq> []" and "x_blob_key req = Some k" and "k \<noteq> []"
    and "arrayBuffer req \<noteq> []" and "rejects c (length (trace c))"
  shows "BlobUploadEndpoint_handle c req =
           (Threw, c\<lparr>trace := trace c @
              [(Bucket_put_op (if x_blob_public req = Some ''true'' then R2_PUBLIC_binding else R2_binding)
                  (ns @ '':'' @ k)
                  \<lparr>body = arrayBuffer req,
                   httpMetadata_contentType = or_default (content_type req) ''application/octet-stream''\<rparr>,
                False)]\<rparr>)"
  using assms
  by (simp add: BlobUploadEndpoint_handle_def Let_def falsy_def or_default_def[of "Some _"]
      bucket_put_def attempt_def)

lemma upload_metadata_write_rejected:
  assumes "x_blob_namespace req = Some ns" and "ns \<noteq> []" and "x_blob_key req = Some k" and "k \<noteq> []"
    and "arrayBuffer req \<noteq> []" and "\<not> rejects c (length (trace c))"
    and "rejects c (Suc (length (trace c)))"
  shows "BlobUploadEndpoint_handle c req =
           (let b = (if x_blob_public req = Some ''true'' then R2_PUBLIC_binding else R2_binding);
                obj = \<lparr>body = arrayBuffer req,
                       httpMetadata_contentType = or_default (content_type req) ''application/octet-stream''\<rparr>;
                md = \<lparr>key = k, namespace = ns, size' = int (length (arrayBuffer req)),
                      contentType = or_default (content_type req) ''application/octet-stream'',
                      uploadedAt = clock c (Suc (length (trace c))),
                      isPublic = (x_blob_public req = Some ''true'')\<rparr>
            in (Threw, (store_object b (ns @ '':'' @ k) obj c)
                  \<lparr>trace := trace c @ [(Bucket_put_op b (ns @ '':'' @ k) obj, True),
                                       (KV_put_op (''__BLOB:'' @ ns @ '':'' @ k) md, False)]\<rparr>))"
  using assms
  by (simp add: BlobUploadEndpoint_handle_def Let_def falsy_def or_default_def[of "Some _"]
      bucket_put_def KV_put_def attempt_def now_def)

lemma upload_accepted:
  assumes "x_blob_namespace req = Some ns" and "ns \<noteq> []" and "x_blob_key req = Some k" and "k \<noteq> []"
    and "arrayBuffer req \<noteq> []" and "\<not> rejects c (length (trace c))"
    and "\<not> rejects c (Suc (length (trace c)))"
  shows "BlobUploadEndpoint_handle c req =
           (let b = (if x_blob_public req = Some ''true'' then R2_PUBLIC_binding else R2_binding);
                obj = \<lparr>body = arrayBuffer req,
                       httpMetadata_contentType = or_default (content_type req) ''application/octet-stream''\<rparr>;
                md = \<lparr>key = k, namespace = ns, size' = int (length (arrayBuffer req)),
                      contentType = or_default (content_type req) ''application/octet-stream'',
                      uploadedAt = clock c (Suc (length (trace c))),
                      isPublic = (x_blob_public req = Some ''true'')\<rparr>
            in (Returned (UploadJson md),
                (store_object b (ns @ '':'' @ k) obj c)
                  \<lparr>KV := (KV c)(''__BLOB:'' @ ns @ '':'' @ k \<mapsto> md),
                   trace := trace c @ [(Bucket_put_op b (ns @ '':'' @ k) obj, True),
                                       (KV_put_op (''__BLOB:'' @ ns @ '':'' @ k) md, True)]\<rparr>))"
  using assms
  by (simp add: BlobUploadEndpoint_handle_def Let_def falsy_def or_default_def[of "Some _"]
      bucket_put_def KV_put_def attempt_def now_def)

lemma upload_accepted_env:
  assumes "x_blob_namespace req = Some ns" and "ns \<noteq> []" and "x_blob_key req = Some k" and "k \<noteq> []"
    and "arrayBuffer req \<noteq> []" and "\<not> rejects c (length (trace c))"
    and "\<not> rejects c (Suc (length (trace c)))"
  defines "c1 \<equiv> snd (BlobUploadEndpoint_handle c req)"
    and "b \<equiv> (if x_blob_public req = Some ''true'' then R2_PUBLIC_binding else R2_binding)"
    and "obj \<equiv> \<lparr>body = arrayBuffer req,
                  httpMetadata_contentType = or_default (content_type req) ''application/octet-stream''\<rparr>"
    and "md \<equiv> \<lparr>key = k, namespace = ns, size' = int (length (arrayBuffer req)),
                 contentType = or_default (content_type req) ''application/octet-stream'',
                 uploadedAt = clock c (Suc (length (trace c))),
                 isPublic = (x_blob_public req = Some ''true'')\<rparr>"
  shows "fst (BlobUploadEndpoint_handle c req) = Returned (UploadJson md)"
    and "KV c1 = (KV c)(''__BLOB:'' @ ns @ '':'' @ k \<mapsto> md)"
    and "bucket_of c1 b = (bucket_of c b)(ns @ '':'' @ k \<mapsto> obj)"
    and "b' \<noteq> b \<Longrightarrow> bucket_of c1 b' = bucket_of c b'"
    and "trace c1 = trace c @ [(Bucket_put_op b (ns @ '':'' @ k) obj, True),
                               (KV_put_op (''__BLOB:'' @ ns @ '':'' @ k) md, True)]"
    and "rejects c1 = rejects c" and "clock c1 = clock c"
  unfolding c1_def b_def obj_def md_def
  using upload_accepted [OF assms(1-7)]
  by (simp_all add: Let_def)

subsection \<open>Stream download\<close>

lemma download_missing_identifier:
  "ns = [] \<or> k = [] \<Longrightarrow>
   registerBlobDownloadRoute c ns k = (Returned (ErrorJson 400 400 ''Missing namespace or key''), c)"
  by (simp add: registerBlobDownloadRoute_def)

lemma download_lookup_rejected:
  "ns \<noteq> [] \<Longrightarrow> k \<noteq> [] \<Longrightarrow> rejects c (length (trace c)) \<Longrightarrow>
   registerBlobDownloadRoute c ns k =
     (Threw, c\<lparr>trace := trace c @ [(KV_get_op (''__BLOB:'' @ ns @ '':'' @ k), False)]\<rparr>)"
  by (simp add: registerBlobDownloadRoute_def Let_def KV_get_def attempt_def)

lemma download_no_metadata:
  "ns \<noteq> [] \<Longrightarrow> k \<noteq> [] \<Longrightarrow> \<not> rejects c (length (trace c)) \<Longrightarrow>
   KV c (''__BLOB:'' @ ns @ '':'' @ k) = None \<Longrightarrow>
   registerBlobDownloadRoute c ns k =
     (Returned (ErrorJson 404 404 ''Blob not found''),
      c\<lparr>trace := trace c @ [(KV_get_op (''__BLOB:'' @ ns @ '':'' @ k), True)]\<rparr>)"
  by (simp add: registerBlobDownloadRoute_def Let_def KV_get_def attempt_def)

lemma download_fetch_rejected:
  "ns \<noteq> [] \<Longrightarrow> k \<noteq> [] \<Longrightarrow> \<not> rejects c (length (trace c)) \<Longrightarrow>
   KV c (''__BLOB:'' @ ns @ '':'' @ k) = Some md \<Longrightarrow> rejects c (Suc (length (trace c))) \<Longrightarrow>
   registerBlobDownloadRoute c ns k =
     (Threw,
      c\<lparr>trace := trace c @ [(KV_get_op (''__BLOB:'' @ ns @ '':'' @ k), True),
          (Bucket_get_op (if isPublic md then R2_PUBLIC_binding else R2_binding) (ns @ '':'' @ k), False)]\<rparr>)"
  by (simp add: registerBlobDownloadRoute_def Let_def KV_get_def bucket_get_def attempt_def)

lemma download_no_object:
  "ns \<noteq> [] \<Longrightarrow> k \<noteq> [] \<Longrightarrow> \<not> rejects c (length (trace c)) \<Longrightarrow>
   KV c (''__BLOB:'' @ ns @ '':'' @ k) = Some md \<Longrightarrow> \<not> rejects c (Suc (length (trace c))) \<Longrightarrow>
   bucket_of c (if isPublic md then R2_PUBLIC_binding else R2_binding) (ns @ '':'' @ k) = None \<Longrightarrow>
   registerBlobDownloadRoute c ns k =
     (Returned (ErrorJson 404 404 ''Blob not found in storage''),
      c\<lparr>trace := trace c @ [(KV_get_op (''__BLOB:'' @ ns @ '':'' @ k), True),
          (Bucket_get_op (if isPublic md then R2_PUBLIC_binding else R2_binding) (ns @ '':'' @ k), True)]\<rparr>)"
  by (simp add: registerBlobDownloadRoute_def Let_def KV_get_def bucket_get_def attempt_def)

lemma download_streams:
  "ns \<noteq> [] \<Longrightarrow> k \<noteq> [] \<Longrightarrow> \<not> rejects c (length (trace c)) \<Longrightarrow>
   KV c (''__BLOB:'' @ ns @ '':'' @ k) = Some md \<Longrightarrow> \<not> rejects c (Suc (length (trace c))) \<Longrightarrow>
   bucket_of c (if isPublic md then R2_PUBLIC_binding else R2_binding) (ns @ '':'' @ k) = Some obj \<Longrightarrow>
   registerBlobDownloadRoute c ns k =
     (Returned (Stream (body obj)
        \<lparr>Content_Type = or_default (Some (contentType md)) ''application/octet-stream'',
         Content_Length = size' md,
         Content_Disposition = ''attachment; filename=\"'' @ encodeURIComponent k @ ''\"''\<rparr>),
      c\<lparr>trace := trace c @ [(KV_get_op (''__BLOB:'' @ ns @ '':'' @ k), True),
          (Bucket_get_op (if isPublic md then R2_PUBLIC_binding else R2_binding) (ns @ '':'' @ k), True)]\<rparr>)"
  by (simp add: registerBlobDownloadRoute_def Let_def KV_get_def bucket_get_def attempt_def)

lemma download_events:
  assumes "ns \<noteq> []" and "k \<noteq> []" and "\<not> rejects c (length (trace c))"
    and "KV c (''__BLOB:'' @ ns @ '':'' @ k) = Some md"
  shows "\<exists>ok. new_events c (snd (registerBlobDownloadRoute c ns k)) =
           [(KV_get_op (''__BLOB:'' @ ns @ '':'' @ k), True),
            (Bucket_get_op (if isPublic md then R2_PUBLIC_binding else R2_binding) (ns @ '':'' @ k), ok)]"
proof (cases "rejects c (Suc (length (trace c)))")
  case True
  from download_fetch_rejected [OF assms True] show ?thesis
    by (intro exI [of _ False]) simp
next
  case False
  show ?thesis
  proof (cases "bucket_of c (if isPublic md then R2_PUBLIC_binding else R2_binding) (ns @ '':'' @ k)")
    case None
    from download_no_object [OF assms False None] show ?thesis
      by (intro exI [of _ True]) simp
  next
    case (Some obj)
    from download_streams [OF assms False Some] show ?thesis
      by (intro exI [of _ True]) simp
  qed
qed

subsection \<open>Get reference\<close>

lemma get_lookup_rejected:
  "rejects c (length (trace c)) \<Longrightarrow>
   BlobGetEndpoint_handle c origin ns k =
     (Threw, c\<lparr>trace := trace c @ [(KV_get_op (''__BLOB:'' @ ns @ '':'' @ k), False)]\<rparr>)"
  by (simp add: BlobGetEndpoint_handle_def Let_def KV_get_def attempt_def)

lemma get_no_metadata:
  "\<not> rejects c (length (trace c)) \<Longrightarrow> KV c (''__BLOB:'' @ ns @ '':'' @ k) = None \<Longrightarrow>
   BlobGetEndpoint_handle c origin ns k =
     (Returned (ErrorJson 404 404 ''Blob not found''),
      c\<lparr>trace := trace c @ [(KV_get_op (''__BLOB:'' @ ns @ '':'' @ k), True)]\<rparr>)"
  by (simp add: BlobGetEndpoint_handle_def Let_def KV_get_def attempt_def)

lemma get_found:
  "\<not> rejects c (length (trace c)) \<Longrightarrow> KV c (''__BLOB:'' @ ns @ '':'' @ k) = Some md \<Longrightarrow>
   BlobGetEndpoint_handle c origin ns k =
     (Returned (GetJson (origin @ ''/blob/download/'' @ encodeURIComponent ns @ ''/''
                         @ encodeURIComponent k) md),
      c\<lparr>trace := trace c @ [(KV_get_op (''__BLOB:'' @ ns @ '':'' @ k), True)]\<rparr>)"
  by (simp add: BlobGetEndpoint_handle_def Let_def KV_get_def attempt_def)

subsection \<open>Presigned upload\<close>

lemma safeParse_bad_size:
  "map_of props ''size'' = Some (JNum r) \<Longrightarrow> r \<le> 0 \<or> \<not> is_integer r \<Longrightarrow>
   PresignUploadRequest_safeParse nsv (JObj props) = None"
  by (auto simp: PresignUploadRequest_safeParse_def bind_eq_None_conv)

lemma presign_unconfigured:
  "falsy (R2_ACCOUNT_ID c) \<or> falsy (R2_ACCESS_KEY_ID c) \<or> falsy (R2_SECRET_ACCESS_KEY c) \<Longrightarrow>
   BlobPresignUploadEndpoint_handle nsv c rb =
     (Returned (ErrorJson 503 503 ''R2 credentials not configured for presigned URLs''), c)"
  by (simp add: BlobPresignUploadEndpoint_handle_def)

lemma presign_not_json:
  "\<not> falsy (R2_ACCOUNT_ID c) \<Longrightarrow> \<not> falsy (R2_ACCESS_KEY_ID c) \<Longrightarrow> \<not> falsy (R2_SECRET_ACCESS_KEY c) \<Longrightarrow>
   BlobPresignUploadEndpoint_handle nsv c None = (Threw, c)"
  by (simp add: BlobPresignUploadEndpoint_handle_def)

lemma presign_invalid_body:
  "\<not> falsy (R2_ACCOUNT_ID c) \<Longrightarrow> \<not> falsy (R2_ACCESS_KEY_ID c) \<Longrightarrow> \<not> falsy (R2_SECRET_ACCESS_KEY c) \<Longrightarrow>
   PresignUploadRequest_safeParse nsv j = None \<Longrightarrow>
   BlobPresignUploadEndpoint_handle nsv c (Some j) =
     (Returned (ErrorJson 400 400 ''Invalid request body''), c)"
  by (simp add: BlobPresignUploadEndpoint_handle_def)

lemma presign_signer_rejected:
  "\<not> falsy (R2_ACCOUNT_ID c) \<Longrightarrow> \<not> falsy (R2_ACCESS_KEY_ID c) \<Longrightarrow> \<not> falsy (R2_SECRET_ACCESS_KEY c) \<Longrightarrow>
   PresignUploadRequest_safeParse nsv j = Some (ns, k, ct, n, p) \<Longrightarrow>
   rejects c (length (trace c)) \<Longrightarrow>
   BlobPresignUploadEndpoint_handle nsv c (Some j) =
     (Threw, c\<lparr>trace := trace c @ [(sign_call c ns k ct n p, False)]\<rparr>)"
  by (simp add: BlobPresignUploadEndpoint_handle_def Let_def getSignedUrl_def attempt_def sign_call_def)

lemma presign_metadata_write_rejected:
  "\<not> falsy (R2_ACCOUNT_ID c) \<Longrightarrow> \<not> falsy (R2_ACCESS_KEY_ID c) \<Longrightarrow> \<not> falsy (R2_SECRET_ACCESS_KEY c) \<Longrightarrow>
   PresignUploadRequest_safeParse nsv j = Some (ns, k, ct, n, p) \<Longrightarrow>
   \<not> rejects c (length (trace c)) \<Longrightarrow> rejects c (Suc (length (trace c))) \<Longrightarrow>
   BlobPresignUploadEndpoint_handle nsv c (Some j) =
     (Threw, c\<lparr>trace := trace c @ [(sign_call c ns k ct n p, True),
        (KV_put_op (''__BLOB:'' @ ns @ '':'' @ k)
           \<lparr>key = k, namespace = ns, size' = n, contentType = ct,
            uploadedAt = clock c (Suc (length (trace c))), isPublic = p\<rparr>, False)]\<rparr>)"
  by (simp add: BlobPresignUploadEndpoint_handle_def Let_def getSignedUrl_def KV_put_def attempt_def
      now_def sign_call_def)

lemma presign_accepted:
  "\<not> falsy (R2_ACCOUNT_ID c) \<Longrightarrow> \<not> falsy (R2_ACCESS_KEY_ID c) \<Longrightarrow> \<not> falsy (R2_SECRET_ACCESS_KEY c) \<Longrightarrow>
   PresignUploadRequest_safeParse nsv j = Some (ns, k, ct, n, p) \<Longrightarrow>
   \<not> rejects c (length (trace c)) \<Longrightarrow> \<not> rejects c (Suc (length (trace c))) \<Longrightarrow>
   BlobPresignUploadEndpoint_handle nsv c (Some j) =
     (let md = \<lparr>key = k, namespace = ns, size' = n, contentType = ct,
                 uploadedAt = clock c (Suc (length (trace c))), isPublic = p\<rparr>
      in (Returned (PresignJson
            (signer c
               \<lparr>region = ''auto'',
                endpoint = ''https://'' @ or_default (R2_ACCOUNT_ID c) [] @ ''.r2.cloudflarestorage.com'',
                accessKeyId = or_default (R2_ACCESS_KEY_ID c) [],
                secretAccessKey = or_default (R2_SECRET_ACCESS_KEY c) []\<rparr>
               \<lparr>Bucket = (if p then ''federise-objects-public'' else ''federise-objects''),
                Key = ns @ '':'' @ k, ContentType = ct, ContentLength = n\<rparr>
               3600 (clock c (length (trace c))))
            (clock c (Suc (length (trace c))) + 3600000)),
          c\<lparr>KV := (KV c)(''__BLOB:'' @ ns @ '':'' @ k \<mapsto> md),
            trace := trace c @ [(sign_call c ns k ct n p, True),
                                (KV_put_op (''__BLOB:'' @ ns @ '':'' @ k) md, True)]\<rparr>))"
  by (simp add: BlobPresignUploadEndpoint_handle_def Let_def getSignedUrl_def KV_put_def attempt_def
      now_def sign_call_def)

lemma presign_accepted_env:
  assumes "\<not> falsy (R2_ACCOUNT_ID c)" and "\<not> falsy (R2_ACCESS_KEY_ID c)"
    and "\<not> falsy (R2_SECRET_ACCESS_KEY c)"
    and "PresignUploadRequest_safeParse nsv j = Some (ns, k, ct, n, p)"
    and "\<not> rejects c (length (trace c))" and "\<not> rejects c (Suc (length (trace c)))"
  defines "c1 \<equiv> snd (BlobPresignUploadEndpoint_handle nsv c (Some j))"
    and "md \<equiv> \<lparr>key = k, namespace = ns, size' = n, contentType = ct,
                 uploadedAt = clock c (Suc (length (trace c))), isPublic = p\<rparr>"
  shows "fst (BlobPresignUploadEndpoint_handle nsv c (Some j)) =
           Returned (PresignJson
            (signer c
               \<lparr>region = ''auto'',
                endpoint = ''https://'' @ or_default (R2_ACCOUNT_ID c) [] @ ''.r2.cloudflarestorage.com'',
                accessKeyId = or_default (R2_ACCESS_KEY_ID c) [],
                secretAccessKey = or_default (R2_SECRET_ACCESS_KEY c) []\<rparr>
               \<lparr>Bucket = (if p then ''federise-objects-public'' else ''federise-objects''),
                Key = ns @ '':'' @ k, ContentType = ct, ContentLength = n\<rparr>
               3600 (clock c (length (trace c))))
            (clock c (Suc (length (trace c))) + 3600000))"
    and "KV c1 = (KV c)(''__BLOB:'' @ ns @ '':'' @ k \<mapsto> md)"
    and "bucket_of c1 b = bucket_of c b"
    and "trace c1 = trace c @ [(sign_call c ns k ct n p, True),
                               (KV_put_op (''__BLOB:'' @ ns @ '':'' @ k) md, True)]"
    and "rejects c1 = rejects c" and "clock c1 = clock c"
  unfolding c1_def md_def
  using presign_accepted [OF assms(1-6)]
  by (simp_all add: Let_def)

subsection \<open>The derived keys in the calls of each handler\<close>

lemma no_colon_in_prefix: "CHR '':'' \<notin> set ''__BLOB''"
  by simp

lemma separator_apart:
  assumes "c \<notin> set p" and "p @ c # xs = q @ c # ys"
  shows "q = p \<or> (\<exists>r. q = p @ c # r)"
proof -
  from assms(2) obtain us where
    "p = q @ us \<and> us @ c # xs = c # ys \<or> p @ us = q \<and> c # xs = us @ c # ys"
    unfolding append_eq_append_conv2 by blast
  then show ?thesis
  proof
    assume a: "p = q @ us \<and> us @ c # xs = c # ys"
    show ?thesis
    proof (cases us)
      case Nil
      with a show ?thesis by simp
    next
      case (Cons u us')
      with a have "u = c" by simp
      with Cons a have "c \<in> set p" by simp
      with assms(1) show ?thesis by simp
    qed
  next
    assume b: "p @ us = q \<and> c # xs = us @ c # ys"
    show ?thesis
    proof (cases us)
      case Nil
      with b show ?thesis by simp
    next
      case (Cons u us')
      with b have "u = c" by simp
      with Cons b show ?thesis by blast
    qed
  qed
qed

lemma reserved_prefix_exact:
  assumes "ns' \<noteq> ''__BLOB''" and "\<not> prefix ''__BLOB:'' ns'"
  shows "kvKey_of ns k \<noteq> r2Key_of ns' k'"
proof
  assume "kvKey_of ns k = r2Key_of ns' k'"
  then have "''__BLOB'' @ CHR '':'' # (ns @ '':'' @ k) = ns' @ CHR '':'' # k'"
    by (simp add: kvKey_of_def r2Key_of_def)
  from separator_apart [OF no_colon_in_prefix this]
  have "ns' = ''__BLOB'' \<or> (\<exists>r. ns' = ''__BLOB'' @ CHR '':'' # r)" .
  then show False
  proof
    assume "ns' = ''__BLOB''"
    with assms(1) show False by contradiction
  next
    assume "\<exists>r. ns' = ''__BLOB'' @ CHR '':'' # r"
    then obtain r where "ns' = ''__BLOB:'' @ r"
      by auto
    then have "prefix ''__BLOB:'' ns'"
      by (rule prefixI)
    with assms(2) show False by contradiction
  qed
qed

lemma reserved_prefix_collides:
  assumes "ns' = ''__BLOB'' \<or> prefix ''__BLOB:'' ns'"
  shows "\<exists>a b b'. a \<noteq> [] \<and> b \<noteq> [] \<and> b' \<noteq> [] \<and> kvKey_of a b = r2Key_of ns' b'"
  using assms
proof
  assume "ns' = ''__BLOB''"
  then have "kvKey_of ''a'' ''b'' = r2Key_of ns' ''a:b''"
    by (simp add: kvKey_of_def r2Key_of_def)
  moreover have "''a'' \<noteq> []" "''b'' \<noteq> []" "''a:b'' \<noteq> []"
    by simp_all
  ultimately show ?thesis by blast
next
  assume "prefix ''__BLOB:'' ns'"
  then obtain r where "ns' = ''__BLOB:'' @ r"
    by (rule prefixE)
  then have "kvKey_of (r @ '':a'') ''b'' = r2Key_of ns' ''a:b''"
    by (simp add: kvKey_of_def r2Key_of_def)
  moreover have "r @ '':a'' \<noteq> []" "''b'' \<noteq> []" "''a:b'' \<noteq> []"
    by simp_all
  ultimately show ?thesis by blast
qed

lemma upload_addresses:
  assumes "x_blob_namespace req = Some ns" and "x_blob_key req = Some k"
  shows "list_all (\<lambda>e. addresses ns k (fst e)) (new_events c (snd (BlobUploadEndpoint_handle c req)))"
proof -
  consider (missing) "ns = [] \<or> k = []"
    | (empty) "ns \<noteq> []" "k \<noteq> []" "arrayBuffer req = []"
    | (object_rejected) "ns \<noteq> []" "k \<noteq> []" "arrayBuffer req \<noteq> []" "rejects c (length (trace c))"
    | (metadata_rejected) "ns \<noteq> []" "k \<noteq> []" "arrayBuffer req \<noteq> []"
        "\<not> rejects c (length (trace c))" "rejects c (Suc (length (trace c)))"
    | (accepted) "ns \<noteq> []" "k \<noteq> []" "arrayBuffer req \<noteq> []"
        "\<not> rejects c (length (trace c))" "\<not> rejects c (Suc (length (trace c)))"
    by blast
  then show ?thesis
  proof cases
    case missing
    with assms have "falsy (x_blob_namespace req) \<or> falsy (x_blob_key req)"
      by (auto simp: falsy_def)
    then show ?thesis
      by (simp add: upload_missing_identifier)
  next
    case empty
    with assms show ?thesis
      by (simp add: upload_empty_payload falsy_def)
  next
    case object_rejected
    from upload_object_write_rejected [OF assms(1) object_rejected(1) assms(2) object_rejected(2-4)]
    show ?thesis
      by (simp add: r2Key_of_def)
  next
    case metadata_rejected
    from upload_metadata_write_rejected [OF assms(1) metadata_rejected(1) assms(2) metadata_rejected(2-5)]
    show ?thesis
      by (simp add: Let_def r2Key_of_def kvKey_of_def)
  next
    case accepted
    from upload_accepted [OF assms(1) accepted(1) assms(2) accepted(2-5)]
    show ?thesis
      by (simp add: Let_def r2Key_of_def kvKey_of_def)
  qed
qed

lemma presign_addresses:
  assumes "PresignUploadRequest_safeParse nsv j = Some (ns, k, ct, n, p)"
  shows "list_all (\<lambda>e. addresses ns k (fst e))
           (new_events c (snd (BlobPresignUploadEndpoint_handle nsv c (Some j))))"
proof (cases "falsy (R2_ACCOUNT_ID c) \<or> falsy (R2_ACCESS_KEY_ID c) \<or> falsy (R2_SECRET_ACCESS_KEY c)")
  case True
  then show ?thesis
    by (simp add: presign_unconfigured)
next
  case False
  then have cf: "\<not> falsy (R2_ACCOUNT_ID c)" "\<not> falsy (R2_ACCESS_KEY_ID c)"
    "\<not> falsy (R2_SECRET_ACCESS_KEY c)"
    by simp_all
  consider (signer_rejected) "rejects c (length (trace c))"
    | (metadata_rejected) "\<not> rejects c (length (trace c))" "rejects c (Suc (length (trace c)))"
    | (accepted) "\<not> rejects c (length (trace c))" "\<not> rejects c (Suc (length (trace c)))"
    by blast
  then show ?thesis
  proof cases
    case signer_rejected
    from presign_signer_rejected [OF cf assms signer_rejected] show ?thesis
      by (simp add: sign_call_def r2Key_of_def)
  next
    case metadata_rejected
    from presign_metadata_write_rejected [OF cf assms metadata_rejected] show ?thesis
      by (simp add: sign_call_def r2Key_of_def kvKey_of_def)
  next
    case accepted
    from presign_accepted [OF cf assms accepted] show ?thesis
      by (simp add: Let_def sign_call_def r2Key_of_def kvKey_of_def)
  qed
qed

lemma get_addresses:
  "list_all (\<lambda>e. addresses ns k (fst e)) (new_events c (snd (BlobGetEndpoint_handle c origin ns k)))"
proof (cases "rejects c (length (trace c))")
  case True
  from get_lookup_rejected [OF this] show ?thesis
    by (simp add: kvKey_of_def)
next
  case False
  show ?thesis
  proof (cases "KV c (''__BLOB:'' @ ns @ '':'' @ k)")
    case None
    from get_no_metadata [OF False this] show ?thesis
      by (simp add: kvKey_of_def)
  next
    case (Some md)
    from get_found [OF False this] show ?thesis
      by (simp add: kvKey_of_def)
  qed
qed

lemma download_addresses:
  "list_all (\<lambda>e. addresses ns k (fst e)) (new_events c (snd (registerBlobDownloadRoute c ns k)))"
proof -
  consider (missing) "ns = [] \<or> k = []"
    | (rejected) "ns \<noteq> []" "k \<noteq> []" "rejects c (length (trace c))"
    | (absent) "ns \<noteq> []" "k \<noteq> []" "\<not> rejects c (length (trace c))"
        "KV c (''__BLOB:'' @ ns @ '':'' @ k) = None"
    | (present) md where "ns \<noteq> []" "k \<noteq> []" "\<not> rejects c (length (trace c))"
        "KV c (''__BLOB:'' @ ns @ '':'' @ k) = Some md"
    by (cases "KV c (''__BLOB:'' @ ns @ '':'' @ k)") blast+
  then show ?thesis
  proof cases
    case missing
    then show ?thesis
      by (simp add: download_missing_identifier)
  next
    case rejected
    from download_lookup_rejected [OF this] show ?thesis
      by (simp add: kvKey_of_def)
  next
    case absent
    from download_no_metadata [OF this] show ?thesis
      by (simp add: kvKey_of_def)
  next
    case present
    from download_events [OF this] obtain ok where
      "new_events c (snd (registerBlobDownloadRoute c ns k)) =
           [(KV_get_op (''__BLOB:'' @ ns @ '':'' @ k), True),
            (Bucket_get_op (if isPublic md then R2_PUBLIC_binding else R2_binding) (ns @ '':'' @ k), ok)]"
      by blast
    then show ?thesis
      by (simp add: kvKey_of_def r2Key_of_def)
  qed
qed

subsection \<open>The concrete inputs\<close>

lemma encode_readme: "encodeURIComponent ''readme.txt'' = ''readme.txt''"
  by (simp add: encodeURIComponent_def uri_unreserved_def)

lemma sample_upload_fields:
  "x_blob_namespace (readme_upload pub payload) = Some ''docs''"
  "x_blob_key (readme_upload pub payload) = Some ''readme.txt''"
  "x_blob_public (readme_upload pub payload) = pub"
  "content_type (readme_upload pub payload) = Some ''text/plain''"
  "arrayBuffer (readme_upload pub payload) = payload"
  by (simp_all add: readme_upload_def)

lemma empty_env_fields:
  "KV empty_env = Map.empty" "R2 empty_env = Map.empty" "R2_PUBLIC empty_env = Map.empty"
  "rejects empty_env n = False" "trace empty_env = []" "clock empty_env n = 1700000000000 + int n"
  "R2_ACCOUNT_ID empty_env = Some ''acct''" "R2_ACCESS_KEY_ID empty_env = Some ''id''"
  "R2_SECRET_ACCESS_KEY empty_env = Some ''secret''" "signer empty_env = sample_signer"
  by (simp_all add: empty_env_def)

lemma hello_bytes: "hello \<noteq> []" "length hello = 5"
  by (simp_all add: hello_def)

lemma unconfigured_env_fields:
  "R2_SECRET_ACCESS_KEY unconfigured_env = None"
  by (simp add: unconfigured_env_def)

lemma configured_empty_env:
  "\<not> falsy (R2_ACCOUNT_ID empty_env)" "\<not> falsy (R2_ACCESS_KEY_ID empty_env)"
  "\<not> falsy (R2_SECRET_ACCESS_KEY empty_env)"
  by (simp_all add: empty_env_fields falsy_def)

lemma sample_body_parse:
  "PresignUploadRequest_safeParse nonempty_namespace (presign_body k 5)
     = Some (''docs'', k, ''text/plain'', 5, False)"
  by (simp add: PresignUploadRequest_safeParse_def presign_body_def z_namespace_def
      nonempty_namespace_def is_integer_def)

lemma sample_body_size: "map_of [(''namespace'', JStr ''docs''), (''key'', JStr k),
           (''contentType'', JStr ''text/plain''), (''size'', JNum n)] ''size'' = Some (JNum n)"
  by simp

lemma half_not_integer: "\<not> is_integer (5 / 2)"
  by code_simp

lemma sample_upload_env:
  "KV (snd (BlobUploadEndpoint_handle empty_env (readme_upload pub hello))) ''__BLOB:docs:readme.txt''
     = Some \<lparr>key = ''readme.txt'', namespace = ''docs'', size' = 5, contentType = ''text/plain'',
             uploadedAt = 1700000000001, isPublic = (pub = Some ''true'')\<rparr>"
  "rejects (snd (BlobUploadEndpoint_handle empty_env (readme_upload pub hello))) = rejects empty_env"
  "bucket_of (snd (BlobUploadEndpoint_handle empty_env (readme_upload pub hello)))
     (if pub = Some ''true'' then R2_PUBLIC_binding else R2_binding) ''docs:readme.txt''
     = Some \<lparr>body = hello, httpMetadata_contentType = ''text/plain''\<rparr>"
  "length (trace (snd (BlobUploadEndpoint_handle empty_env (readme_upload pub hello)))) = 2"
  "clock (snd (BlobUploadEndpoint_handle empty_env (readme_upload pub hello))) = clock empty_env"
proof -
  have ne: "''docs'' \<noteq> []" "''readme.txt'' \<noteq> []"
    by simp_all
  have payload: "arrayBuffer (readme_upload pub hello) \<noteq> []"
    by (simp add: sample_upload_fields hello_bytes)
  have acc: "\<not> rejects empty_env (length (trace empty_env))"
    "\<not> rejects empty_env (Suc (length (trace empty_env)))"
    by (simp_all add: empty_env_fields)
  note env = upload_accepted_env [OF sample_upload_fields(1) ne(1) sample_upload_fields(2) ne(2)
      payload acc]
  show "KV (snd (BlobUploadEndpoint_handle empty_env (readme_upload pub hello))) ''__BLOB:docs:readme.txt''
     = Some \<lparr>key = ''readme.txt'', namespace = ''docs'', size' = 5, contentType = ''text/plain'',
             uploadedAt = 1700000000001, isPublic = (pub = Some ''true'')\<rparr>"
    by (simp add: env(2) sample_upload_fields hello_bytes or_default_def empty_env_fields)
  show "rejects (snd (BlobUploadEndpoint_handle empty_env (readme_upload pub hello))) = rejects empty_env"
    by (rule env(6))
  show "bucket_of (snd (BlobUploadEndpoint_handle empty_env (readme_upload pub hello)))
     (if pub = Some ''true'' then R2_PUBLIC_binding else R2_binding) ''docs:readme.txt''
     = Some \<lparr>body = hello, httpMetadata_contentType = ''text/plain''\<rparr>"
    using env(3) by (simp add: sample_upload_fields or_default_def)
  show "length (trace (snd (BlobUploadEndpoint_handle empty_env (readme_upload pub hello)))) = 2"
    by (simp add: env(5) empty_env_fields)
  show "clock (snd (BlobUploadEndpoint_handle empty_env (readme_upload pub hello))) = clock empty_env"
    by (rule env(7))
qed

lemma nonempty_namespace_docs: "nonempty_namespace ''docs''"
  by (simp add: nonempty_namespace_def)

lemma sample_body_parse_any:
  "nsv ''docs'' \<Longrightarrow>
   PresignUploadRequest_safeParse nsv (presign_body k 5)
     = Some (''docs'', k, ''text/plain'', 5, False)"
  by (simp add: PresignUploadRequest_safeParse_def presign_body_def z_namespace_def is_integer_def)

lemma sample_presign:
  assumes "nsv ''docs''"
  shows "fst (BlobPresignUploadEndpoint_handle nsv empty_env (Some (presign_body k 5)))
     = Returned (PresignJson (''https://acct.r2.cloudflarestorage.com/federise-objects/docs:'' @ k)
         1700003600001)"
    and "KV (snd (BlobPresignUploadEndpoint_handle nsv empty_env (Some (presign_body k 5))))
      (''__BLOB:docs:'' @ k)
     = Some \<lparr>key = k, namespace = ''docs'', size' = 5, contentType = ''text/plain'',
             uploadedAt = 1700000000001, isPublic = False\<rparr>"
proof -
  have acc: "\<not> rejects empty_env (length (trace empty_env))"
    "\<not> rejects empty_env (Suc (length (trace empty_env)))"
    by (simp_all add: empty_env_fields)
  note env = presign_accepted_env [OF configured_empty_env
      sample_body_parse_any [where nsv = nsv, OF assms] acc]
  show "fst (BlobPresignUploadEndpoint_handle nsv empty_env (Some (presign_body k 5)))
     = Returned (PresignJson (''https://acct.r2.cloudflarestorage.com/federise-objects/docs:'' @ k)
         1700003600001)"
    by (simp add: env(1) empty_env_fields or_default_def sample_signer_def)
  show "KV (snd (BlobPresignUploadEndpoint_handle nsv empty_env (Some (presign_body k 5))))
      (''__BLOB:docs:'' @ k)
     = Some \<lparr>key = k, namespace = ''docs'', size' = 5, contentType = ''text/plain'',
             uploadedAt = 1700000000001, isPublic = False\<rparr>"
    by (simp add: env(2) empty_env_fields)
qed

section \<open>Upload followed by download\<close>

text \<open>
  C1. For non-empty namespace, key and payload and either visibility, when no collaborator
  call rejects, a direct upload returns the metadata it stored, and the stream download of
  the same namespace and key that follows it returns the uploaded bytes, with the size and
  the content type of that metadata as its declared length and type.
\<close>

theorem upload_then_download_roundtrip:
  assumes "ns \<noteq> []" and "k \<noteq> []" and "payload \<noteq> []" and "\<forall>n. \<not> rejects c n"
  shows "\<exists>md hdrs.
           fst (BlobUploadEndpoint_handle c
                 \<lparr>x_blob_namespace = Some ns, x_blob_key = Some k, x_blob_public = pub,
                  content_type = ct, arrayBuffer = payload\<rparr>) = Returned (UploadJson md)
         \<and> size' md = int (length payload)
         \<and> contentType md = or_default ct ''application/octet-stream''
         \<and> fst (registerBlobDownloadRoute
                 (snd (BlobUploadEndpoint_handle c
                        \<lparr>x_blob_namespace = Some ns, x_blob_key = Some k, x_blob_public = pub,
                         content_type = ct, arrayBuffer = payload\<rparr>)) ns k)
             = Returned (Stream payload hdrs)
         \<and> Content_Length hdrs = size' md
         \<and> Content_Type hdrs = contentType md"
proof -
  let ?req = "\<lparr>x_blob_namespace = Some ns, x_blob_key = Some k, x_blob_public = pub,
               content_type = ct, arrayBuffer = payload\<rparr>"
  let ?b = "if pub = Some ''true'' then R2_PUBLIC_binding else R2_binding"
  let ?obj = "\<lparr>body = payload,
               httpMetadata_contentType = or_default ct ''application/octet-stream''\<rparr>"
  let ?md = "\<lparr>key = k, namespace = ns, size' = int (length payload),
              contentType = or_default ct ''application/octet-stream'',
              uploadedAt = clock c (Suc (length (trace c))),
              isPublic = (pub = Some ''true'')\<rparr>"
  let ?c1 = "snd (BlobUploadEndpoint_handle c ?req)"
  have up: "BlobUploadEndpoint_handle c ?req =
              (Returned (UploadJson ?md),
               (store_object ?b (ns @ '':'' @ k) ?obj c)
                 \<lparr>KV := (KV c)(''__BLOB:'' @ ns @ '':'' @ k \<mapsto> ?md),
                  trace := trace c @ [(Bucket_put_op ?b (ns @ '':'' @ k) ?obj, True),
                                      (KV_put_op (''__BLOB:'' @ ns @ '':'' @ k) ?md, True)]\<rparr>)"
    using assms upload_accepted [of ?req ns k c] by (simp add: Let_def)
  have nonempty: "or_default ct ''application/octet-stream'' \<noteq> []"
    by (simp add: or_default_def split: option.splits)
  have kv: "KV ?c1 (''__BLOB:'' @ ns @ '':'' @ k) = Some ?md"
    by (simp add: up)
  have obj: "bucket_of ?c1 (if isPublic ?md then R2_PUBLIC_binding else R2_binding) (ns @ '':'' @ k)
             = Some ?obj"
    by (simp add: up)
  have rej: "\<not> rejects ?c1 (length (trace ?c1))" "\<not> rejects ?c1 (Suc (length (trace ?c1)))"
    using assms(4) by (simp_all add: up)
  have down: "fst (registerBlobDownloadRoute ?c1 ns k) =
          Returned (Stream payload
            \<lparr>Content_Type = or_default (Some (contentType ?md)) ''application/octet-stream'',
             Content_Length = size' ?md,
             Content_Disposition = ''attachment; filename=\"'' @ encodeURIComponent k @ ''\"''\<rparr>)"
    using download_streams [OF assms(1,2) rej(1) kv rej(2) obj] by simp
  have ct: "or_default (Some (contentType ?md)) ''application/octet-stream'' = contentType ?md"
    using nonempty by (simp add: or_default_def)
  show ?thesis
    using up down ct by simp
qed

text \<open>The sample upload into the empty environment.\<close>

theorem upload_then_download_roundtrip_witness:
  "''docs'' \<noteq> [] \<and> ''readme.txt'' \<noteq> [] \<and> hello \<noteq> [] \<and> (\<forall>n. \<not> rejects empty_env n)
   \<and> (\<exists>md hdrs.
           fst (BlobUploadEndpoint_handle empty_env
                 \<lparr>x_blob_namespace = Some ''docs'', x_blob_key = Some ''readme.txt'',
                  x_blob_public = None, content_type = Some ''text/plain'',
                  arrayBuffer = hello\<rparr>) = Returned (UploadJson md)
         \<and> size' md = int (length hello)
         \<and> contentType md = or_default (Some ''text/plain'') ''application/octet-stream''
         \<and> fst (registerBlobDownloadRoute
                 (snd (BlobUploadEndpoint_handle empty_env
                        \<lparr>x_blob_namespace = Some ''docs'', x_blob_key = Some ''readme.txt'',
                         x_blob_public = None, content_type = Some ''text/plain'',
                         arrayBuffer = hello\<rparr>)) ''docs'' ''readme.txt'')
             = Returned (Stream hello hdrs)
         \<and> Content_Length hdrs = size' md
         \<and> Content_Type hdrs = contentType md)"
proof -
  have hyps: "''docs'' \<noteq> []" "''readme.txt'' \<noteq> []" "hello \<noteq> []" "\<forall>n. \<not> rejects empty_env n"
    by (simp_all add: hello_bytes empty_env_fields)
  from upload_then_download_roundtrip [OF hyps, of None "Some ''text/plain''"] hyps
  show ?thesis by blast
qed

section \<open>Order of the two writes of a direct upload\<close>

text \<open>
  C2. Whatever the request and whichever calls reject, the calls a direct upload makes
  contain a metadata write only after an object write that completed; the metadata store
  changes only if an object write completed; and if the object write rejects, the handler
  throws, makes no metadata write and leaves the metadata store as it was.
\<close>

theorem upload_metadata_only_after_object:
  "let r = BlobUploadEndpoint_handle c req; evs = new_events c (snd r)
   in trace (snd r) = trace c @ evs
    \<and> metadata_after_object False evs
    \<and> (KV (snd r) \<noteq> KV c \<longrightarrow> (\<exists>b k obj. (Bucket_put_op b k obj, True) \<in> set evs))
    \<and> ((\<exists>b k obj. (Bucket_put_op b k obj, False) \<in> set evs) \<longrightarrow>
          fst r = Threw \<and> KV (snd r) = KV c \<and> (\<forall>k v ok. (KV_put_op k v, ok) \<notin> set evs))"
proof -
  consider (missing) "falsy (x_blob_namespace req) \<or> falsy (x_blob_key req)"
    | (empty) "\<not> falsy (x_blob_namespace req)" "\<not> falsy (x_blob_key req)" "arrayBuffer req = []"
    | (object_rejected) "\<not> falsy (x_blob_namespace req)" "\<not> falsy (x_blob_key req)"
        "arrayBuffer req \<noteq> []" "rejects c (length (trace c))"
    | (metadata_rejected) "\<not> falsy (x_blob_namespace req)" "\<not> falsy (x_blob_key req)"
        "arrayBuffer req \<noteq> []" "\<not> rejects c (length (trace c))" "rejects c (Suc (length (trace c)))"
    | (accepted) "\<not> falsy (x_blob_namespace req)" "\<not> falsy (x_blob_key req)"
        "arrayBuffer req \<noteq> []" "\<not> rejects c (length (trace c))" "\<not> rejects c (Suc (length (trace c)))"
    by blast
  then show ?thesis
  proof cases
    case missing
    then show ?thesis
      by (simp add: upload_missing_identifier new_events_def)
  next
    case empty
    then show ?thesis
      by (simp add: upload_empty_payload new_events_def)
  next
    case object_rejected
    then obtain ns k where "x_blob_namespace req = Some ns" "ns \<noteq> []" "x_blob_key req = Some k" "k \<noteq> []"
      by (auto simp: not_falsy_iff)
    from upload_object_write_rejected [OF this object_rejected(3,4)] show ?thesis
      by (simp add: Let_def)
  next
    case metadata_rejected
    then obtain ns k where "x_blob_namespace req = Some ns" "ns \<noteq> []" "x_blob_key req = Some k" "k \<noteq> []"
      by (auto simp: not_falsy_iff)
    from upload_metadata_write_rejected [OF this metadata_rejected(3,4,5)] show ?thesis
      by (simp add: Let_def)
  next
    case accepted
    then obtain ns k where "x_blob_namespace req = Some ns" "ns \<noteq> []" "x_blob_key req = Some k" "k \<noteq> []"
      by (auto simp: not_falsy_iff)
    from upload_accepted [OF this accepted(3,4,5)] show ?thesis
      by (simp add: Let_def)
  qed
qed

text \<open>
  The object write of the sample upload rejects: the handler throws and no record appears.
  It completes: the metadata store changes, after a completed object write.
\<close>

theorem upload_metadata_only_after_object_witness:
  "(\<exists>b k obj. (Bucket_put_op b k obj, False)
       \<in> set (new_events failing_env (snd (BlobUploadEndpoint_handle failing_env (readme_upload None hello)))))
   \<and> fst (BlobUploadEndpoint_handle failing_env (readme_upload None hello)) = Threw
   \<and> KV (snd (BlobUploadEndpoint_handle failing_env (readme_upload None hello))) = KV failing_env
   \<and> KV failing_env ''__BLOB:docs:readme.txt'' = None
   \<and> KV (snd (BlobUploadEndpoint_handle empty_env (readme_upload None hello))) \<noteq> KV empty_env
   \<and> (\<exists>b k obj. (Bucket_put_op b k obj, True)
       \<in> set (new_events empty_env (snd (BlobUploadEndpoint_handle empty_env (readme_upload None hello)))))"
proof -
  let ?r = "BlobUploadEndpoint_handle failing_env (readme_upload None hello)"
  let ?c1 = "snd (BlobUploadEndpoint_handle empty_env (readme_upload None hello))"
  have first: "rejects failing_env (length (trace failing_env))"
    by (simp add: failing_env_def empty_env_def)
  have ne: "''docs'' \<noteq> []" "''readme.txt'' \<noteq> []"
    by simp_all
  have payload: "arrayBuffer (readme_upload None hello) \<noteq> []"
    by (simp add: sample_upload_fields hello_bytes)
  note run = upload_object_write_rejected [OF sample_upload_fields(1) ne(1) sample_upload_fields(2)
      ne(2) payload first]
  have events: "new_events failing_env (snd ?r) =
      [(Bucket_put_op (if x_blob_public (readme_upload None hello) = Some ''true''
                       then R2_PUBLIC_binding else R2_binding)
          (''docs'' @ '':'' @ ''readme.txt'')
          \<lparr>body = arrayBuffer (readme_upload None hello),
           httpMetadata_contentType =
             or_default (content_type (readme_upload None hello)) ''application/octet-stream''\<rparr>,
        False)]"
    by (rule new_events_appended) (simp add: run)
  have rejected: "\<exists>b k obj. (Bucket_put_op b k obj, False) \<in> set (new_events failing_env (snd ?r))"
    unfolding events by (intro exI) (rule list.set_intros(1))
  have unchanged: "KV failing_env ''__BLOB:docs:readme.txt'' = None"
    by (simp add: failing_env_def empty_env_def)
  note inst = upload_metadata_only_after_object [of failing_env "readme_upload None hello",
      unfolded Let_def]
  from inst rejected have thrown: "fst ?r = Threw \<and> KV (snd ?r) = KV failing_env"
    by blast
  have "KV ?c1 ''__BLOB:docs:readme.txt'' \<noteq> KV empty_env ''__BLOB:docs:readme.txt''"
    by (simp add: sample_upload_env(1) empty_env_fields)
  then have changed: "KV ?c1 \<noteq> KV empty_env"
    by metis
  note inst' = upload_metadata_only_after_object [of empty_env "readme_upload None hello",
      unfolded Let_def]
  from inst' changed have completed: "\<exists>b k obj. (Bucket_put_op b k obj, True)
       \<in> set (new_events empty_env ?c1)"
    by blast
  from rejected thrown unchanged changed completed show ?thesis
    by blast
qed

section \<open>Empty payload\<close>

text \<open>
  A zero-length upload to a blob that was uploaded before is refused with 400; the
  download that follows still streams the earlier bytes, it does not answer
  ``Blob not found''.
\<close>

theorem empty_upload_keeps_existing_blob:
  "fst (BlobUploadEndpoint_handle
          (snd (BlobUploadEndpoint_handle empty_env (readme_upload None hello)))
          (readme_upload None [])) = Returned (ErrorJson 400 400 ''Empty file'')
   \<and> fst (registerBlobDownloadRoute
            (snd (BlobUploadEndpoint_handle
                    (snd (BlobUploadEndpoint_handle empty_env (readme_upload None hello)))
                    (readme_upload None [])))
            ''docs'' ''readme.txt'')
       = Returned (Stream hello
           \<lparr>Content_Type = ''text/plain'', Content_Length = 5,
            Content_Disposition = ''attachment; filename=\"readme.txt\"''\<rparr>)"
proof -
  let ?c1 = "snd (BlobUploadEndpoint_handle empty_env (readme_upload None hello))"
  let ?md = "\<lparr>key = ''readme.txt'', namespace = ''docs'', size' = 5, contentType = ''text/plain'',
              uploadedAt = 1700000000001, isPublic = False\<rparr>"
  let ?obj = "\<lparr>body = hello, httpMetadata_contentType = ''text/plain''\<rparr>"
  have ne: "hello \<noteq> []" and len: "length hello = 5"
    by (simp_all add: hello_def)
  note env = upload_accepted_env [of "readme_upload None hello" "''docs''" "''readme.txt''" empty_env,
      unfolded sample_upload_fields empty_env_fields, simplified, OF ne]
  have kv: "KV ?c1 (''__BLOB:'' @ ''docs'' @ '':'' @ ''readme.txt'') = Some ?md"
    by (simp add: env(2) len or_default_def)
  have obj: "bucket_of ?c1 (if isPublic ?md then R2_PUBLIC_binding else R2_binding)
               (''docs'' @ '':'' @ ''readme.txt'') = Some ?obj"
    by (simp add: env(3) or_default_def)
  have acc: "\<not> rejects ?c1 (length (trace ?c1))" "\<not> rejects ?c1 (Suc (length (trace ?c1)))"
    by (simp_all add: env(6) empty_env_fields)
  have second: "BlobUploadEndpoint_handle ?c1 (readme_upload None [])
                  = (Returned (ErrorJson 400 400 ''Empty file''), ?c1)"
    by (rule upload_empty_payload) (simp_all add: sample_upload_fields falsy_def)
  have down: "fst (registerBlobDownloadRoute ?c1 ''docs'' ''readme.txt'')
       = Returned (Stream hello
           \<lparr>Content_Type = ''text/plain'', Content_Length = 5,
            Content_Disposition = ''attachment; filename=\"readme.txt\"''\<rparr>)"
    using download_streams [OF _ _ acc(1) kv acc(2) obj]
    by (simp add: or_default_def encode_readme)
  show ?thesis
    by (simp add: second down)
qed

text \<open>
  C3, amended. A direct upload with non-empty namespace and key and a zero-length payload
  is refused with 400 ``Empty file'' and leaves the environment as it was: no call to
  either store. If the metadata store held no record for that namespace and key, the
  download and the get-reference that follow answer 404 ``Blob not found''.
\<close>

theorem empty_upload_rejected:
  assumes "x_blob_namespace req = Some ns" and "ns \<noteq> []"
    and "x_blob_key req = Some k" and "k \<noteq> []" and "arrayBuffer req = []"
  shows "BlobUploadEndpoint_handle c req = (Returned (ErrorJson 400 400 ''Empty file''), c)
       \<and> (KV c (''__BLOB:'' @ ns @ '':'' @ k) = None \<and> \<not> rejects c (length (trace c)) \<longrightarrow>
            fst (registerBlobDownloadRoute (snd (BlobUploadEndpoint_handle c req)) ns k)
              = Returned (ErrorJson 404 404 ''Blob not found'')
          \<and> fst (BlobGetEndpoint_handle (snd (BlobUploadEndpoint_handle c req)) origin ns k)
              = Returned (ErrorJson 404 404 ''Blob not found''))"
proof -
  have rejected: "BlobUploadEndpoint_handle c req = (Returned (ErrorJson 400 400 ''Empty file''), c)"
    using assms by (simp add: upload_empty_payload falsy_def)
  show ?thesis
    using assms(2,4) by (simp add: rejected download_no_metadata get_no_metadata)
qed

theorem empty_upload_rejected_witness:
  "x_blob_namespace (readme_upload None []) = Some ''docs'' \<and> ''docs'' \<noteq> []
   \<and> x_blob_key (readme_upload None []) = Some ''readme.txt'' \<and> ''readme.txt'' \<noteq> []
   \<and> arrayBuffer (readme_upload None []) = []
   \<and> KV empty_env (''__BLOB:'' @ ''docs'' @ '':'' @ ''readme.txt'') = None
   \<and> \<not> rejects empty_env (length (trace empty_env))
   \<and> BlobUploadEndpoint_handle empty_env (readme_upload None [])
       = (Returned (ErrorJson 400 400 ''Empty file''), empty_env)
   \<and> fst (registerBlobDownloadRoute (snd (BlobUploadEndpoint_handle empty_env (readme_upload None [])))
            ''docs'' ''readme.txt'') = Returned (ErrorJson 404 404 ''Blob not found'')
   \<and> fst (BlobGetEndpoint_handle (snd (BlobUploadEndpoint_handle empty_env (readme_upload None [])))
            ''https://gateway.example'' ''docs'' ''readme.txt'') = Returned (ErrorJson 404 404 ''Blob not found'')"
proof -
  have fresh: "KV empty_env (''__BLOB:'' @ ''docs'' @ '':'' @ ''readme.txt'') = None"
    "\<not> rejects empty_env (length (trace empty_env))"
    by (simp_all add: empty_env_fields)
  have ne: "''docs'' \<noteq> []" "''readme.txt'' \<noteq> []"
    by simp_all
  note inst = empty_upload_rejected [OF sample_upload_fields(1) ne(1) sample_upload_fields(2) ne(2)
      sample_upload_fields(5), where c = empty_env and origin = "''https://gateway.example''"]
  from inst have refused: "BlobUploadEndpoint_handle empty_env (readme_upload None [])
       = (Returned (ErrorJson 400 400 ''Empty file''), empty_env)"
    by (rule conjunct1)
  from inst fresh have absent:
    "fst (registerBlobDownloadRoute (snd (BlobUploadEndpoint_handle empty_env (readme_upload None [])))
            ''docs'' ''readme.txt'') = Returned (ErrorJson 404 404 ''Blob not found'')"
    "fst (BlobGetEndpoint_handle (snd (BlobUploadEndpoint_handle empty_env (readme_upload None [])))
            ''https://gateway.example'' ''docs'' ''readme.txt'') = Returned (ErrorJson 404 404 ''Blob not found'')"
    by blast+
  show ?thesis
    using fresh refused absent sample_upload_fields [of None "[]"] by (intro conjI) simp_all
qed

section \<open>Retrieval after a presign\<close>

text \<open>
  C4. The download route \<open>/blob/download/:namespace/:key\<close> hands its handler a
  namespace and a key that are not empty, so the blobs a stream download can be asked for
  are those with non-empty namespace and key. For these: after a presign call that
  succeeded (credentials set, body accepted, no call rejecting) the metadata store holds
  the provisional record in the environment the handler returns with the signed URL; a
  get-reference for that key returns that record; and, the selected store holding no object
  under the storage key, a download is answered 404 ``Blob not found in storage'', which is
  not the 404 ``Blob not found'' of a missing record.
\<close>

theorem presign_then_retrieve:
  assumes "\<not> falsy (R2_ACCOUNT_ID c)" and "\<not> falsy (R2_ACCESS_KEY_ID c)"
    and "\<not> falsy (R2_SECRET_ACCESS_KEY c)"
    and "PresignUploadRequest_safeParse nsv j = Some (ns, k, ct, n, p)"
    and "ns \<noteq> []" and "k \<noteq> []"
    and "\<forall>i. \<not> rejects c i"
    and "bucket_of c (if p then R2_PUBLIC_binding else R2_binding) (ns @ '':'' @ k) = None"
  shows "let c1 = snd (BlobPresignUploadEndpoint_handle nsv c (Some j));
             md = \<lparr>key = k, namespace = ns, size' = n, contentType = ct,
                   uploadedAt = clock c (Suc (length (trace c))), isPublic = p\<rparr>
         in (\<exists>uploadUrl expiresAt.
               fst (BlobPresignUploadEndpoint_handle nsv c (Some j))
                 = Returned (PresignJson uploadUrl expiresAt))
          \<and> KV c1 (''__BLOB:'' @ ns @ '':'' @ k) = Some md
          \<and> fst (BlobGetEndpoint_handle c1 origin ns k)
              = Returned (GetJson (origin @ ''/blob/download/'' @ encodeURIComponent ns @ ''/''
                                   @ encodeURIComponent k) md)
          \<and> fst (registerBlobDownloadRoute c1 ns k)
              = Returned (ErrorJson 404 404 ''Blob not found in storage'')
          \<and> fst (registerBlobDownloadRoute c1 ns k) \<noteq> Returned (ErrorJson 404 404 ''Blob not found'')"
proof -
  let ?c1 = "snd (BlobPresignUploadEndpoint_handle nsv c (Some j))"
  let ?md = "\<lparr>key = k, namespace = ns, size' = n, contentType = ct,
              uploadedAt = clock c (Suc (length (trace c))), isPublic = p\<rparr>"
  have acc: "\<not> rejects c (length (trace c))" "\<not> rejects c (Suc (length (trace c)))"
    using assms(7) by simp_all
  note env = presign_accepted_env [OF assms(1-4) acc]
  have kv: "KV ?c1 (''__BLOB:'' @ ns @ '':'' @ k) = Some ?md"
    by (simp add: env(2))
  have acc1: "\<not> rejects ?c1 (length (trace ?c1))" "\<not> rejects ?c1 (Suc (length (trace ?c1)))"
    using assms(7) by (simp_all add: env(5))
  have absent: "bucket_of ?c1 (if isPublic ?md then R2_PUBLIC_binding else R2_binding)
                  (ns @ '':'' @ k) = None"
    using assms(8) by (simp add: env(3))
  have url: "\<exists>uploadUrl expiresAt.
               fst (BlobPresignUploadEndpoint_handle nsv c (Some j))
                 = Returned (PresignJson uploadUrl expiresAt)"
    using env(1) by blast
  have ref: "fst (BlobGetEndpoint_handle ?c1 origin ns k)
              = Returned (GetJson (origin @ ''/blob/download/'' @ encodeURIComponent ns @ ''/''
                                   @ encodeURIComponent k) ?md)"
    using get_found [OF acc1(1) kv] by simp
  have down: "fst (registerBlobDownloadRoute ?c1 ns k)
              = Returned (ErrorJson 404 404 ''Blob not found in storage'')"
    using download_no_object [OF assms(5,6) acc1(1) kv acc1(2) absent] by simp
  have distinct: "fst (registerBlobDownloadRoute ?c1 ns k) \<noteq> Returned (ErrorJson 404 404 ''Blob not found'')"
    unfolding down by simp
  show ?thesis
    unfolding Let_def using url kv ref down distinct by blast
qed

theorem presign_then_retrieve_witness:
  "\<not> falsy (R2_ACCOUNT_ID empty_env) \<and> \<not> falsy (R2_ACCESS_KEY_ID empty_env)
   \<and> \<not> falsy (R2_SECRET_ACCESS_KEY empty_env)
   \<and> PresignUploadRequest_safeParse nonempty_namespace (presign_body ''readme.txt'' 5)
       = Some (''docs'', ''readme.txt'', ''text/plain'', 5, False)
   \<and> ''docs'' \<noteq> [] \<and> ''readme.txt'' \<noteq> []
   \<and> (\<forall>i. \<not> rejects empty_env i)
   \<and> bucket_of empty_env (if False then R2_PUBLIC_binding else R2_binding)
        (''docs'' @ '':'' @ ''readme.txt'') = None
   \<and> (\<exists>uploadUrl expiresAt.
         fst (BlobPresignUploadEndpoint_handle nonempty_namespace empty_env
                (Some (presign_body ''readme.txt'' 5)))
           = Returned (PresignJson uploadUrl expiresAt))
   \<and> fst (BlobGetEndpoint_handle
            (snd (BlobPresignUploadEndpoint_handle nonempty_namespace empty_env
                    (Some (presign_body ''readme.txt'' 5))))
            ''https://gateway.example'' ''docs'' ''readme.txt'')
       = Returned (GetJson (''https://gateway.example'' @ ''/blob/download/''
                            @ encodeURIComponent ''docs'' @ ''/'' @ encodeURIComponent ''readme.txt'')
           \<lparr>key = ''readme.txt'', namespace = ''docs'', size' = 5, contentType = ''text/plain'',
            uploadedAt = clock empty_env (Suc (length (trace empty_env))), isPublic = False\<rparr>)
   \<and> fst (registerBlobDownloadRoute
            (snd (BlobPresignUploadEndpoint_handle nonempty_namespace empty_env
                    (Some (presign_body ''readme.txt'' 5))))
            ''docs'' ''readme.txt'')
       = Returned (ErrorJson 404 404 ''Blob not found in storage'')"
proof -
  have ne: "''docs'' \<noteq> []" "''readme.txt'' \<noteq> []"
    by simp_all
  have quiet: "\<forall>i. \<not> rejects empty_env i"
    by (simp add: empty_env_fields)
  have absent: "bucket_of empty_env (if False then R2_PUBLIC_binding else R2_binding)
        (''docs'' @ '':'' @ ''readme.txt'') = None"
    by (simp add: bucket_of_def empty_env_fields)
  note parse = sample_body_parse [of "''readme.txt''"]
  from presign_then_retrieve [OF configured_empty_env parse ne quiet absent,
      of "''https://gateway.example''", unfolded Let_def]
    configured_empty_env parse ne quiet absent
  show ?thesis
    by blast
qed

section \<open>Derived keys\<close>

text \<open>
  The metadata key of \<open>(a, b)\<close> is the storage key of the namespace \<open>__BLOB\<close> and the
  key \<open>a:b\<close>.
\<close>

theorem metadata_key_is_a_storage_key:
  "kvKey_of ''a'' ''b'' = r2Key_of ''__BLOB'' ''a:b''"
  by (simp add: kvKey_of_def r2Key_of_def)

text \<open>
  C5, amended. The storage key is namespace, a colon, key; the metadata key is the reserved
  prefix \<open>__BLOB:\<close> followed by the storage key; no metadata key equals a storage key
  derived from a namespace that is neither \<open>__BLOB\<close> nor begins with \<open>__BLOB:\<close>,
  while each of those namespaces has a storage key that is a metadata key, of non-empty
  namespace and key; and every call that upload, presign, get-reference and download make
  to the metadata store, to a bucket or to the signer for the blob \<open>(ns, k)\<close> uses
  these two keys.
\<close>

theorem derived_keys:
  "r2Key_of ns k = ns @ '':'' @ k
   \<and> kvKey_of ns k = ''__BLOB:'' @ r2Key_of ns k
   \<and> (ns' \<noteq> ''__BLOB'' \<and> \<not> prefix ''__BLOB:'' ns' \<longrightarrow> kvKey_of ns k \<noteq> r2Key_of ns' k')
   \<and> (ns' = ''__BLOB'' \<or> prefix ''__BLOB:'' ns' \<longrightarrow>
        (\<exists>a b b'. a \<noteq> [] \<and> b \<noteq> [] \<and> b' \<noteq> [] \<and> kvKey_of a b = r2Key_of ns' b'))
   \<and> (x_blob_namespace req = Some ns \<and> x_blob_key req = Some k \<longrightarrow>
        list_all (\<lambda>e. addresses ns k (fst e))
          (new_events c (snd (BlobUploadEndpoint_handle c req))))
   \<and> (PresignUploadRequest_safeParse nsv j = Some (ns, k, ct, n, p) \<longrightarrow>
        list_all (\<lambda>e. addresses ns k (fst e))
          (new_events c (snd (BlobPresignUploadEndpoint_handle nsv c (Some j)))))
   \<and> list_all (\<lambda>e. addresses ns k (fst e))
        (new_events c (snd (BlobGetEndpoint_handle c origin ns k)))
   \<and> list_all (\<lambda>e. addresses ns k (fst e))
        (new_events c (snd (registerBlobDownloadRoute c ns k)))"
proof -
  have "r2Key_of ns k = ns @ '':'' @ k" and "kvKey_of ns k = ''__BLOB:'' @ r2Key_of ns k"
    by (simp_all add: r2Key_of_def kvKey_of_def)
  then show ?thesis
    using reserved_prefix_exact [of ns' ns k k'] reserved_prefix_collides [of ns']
      upload_addresses [of req ns k c]
      presign_addresses [of nsv j ns k ct n p c] get_addresses [of ns k c origin]
      download_addresses [of ns k c]
    by blast
qed

theorem derived_keys_witness:
  "''__BLOBS'' \<noteq> ''__BLOB'' \<and> \<not> prefix ''__BLOB:'' ''__BLOBS''
   \<and> kvKey_of ''docs'' ''readme.txt'' \<noteq> r2Key_of ''__BLOBS'' ''readme.txt''
   \<and> (''__BLOB'' = ''__BLOB'' \<or> prefix ''__BLOB:'' ''__BLOB'')
   \<and> (\<exists>a b b'. a \<noteq> [] \<and> b \<noteq> [] \<and> b' \<noteq> [] \<and> kvKey_of a b = r2Key_of ''__BLOB'' b')
   \<and> x_blob_namespace (readme_upload None hello) = Some ''docs''
   \<and> x_blob_key (readme_upload None hello) = Some ''readme.txt''
   \<and> PresignUploadRequest_safeParse nonempty_namespace (presign_body ''readme.txt'' 5)
       = Some (''docs'', ''readme.txt'', ''text/plain'', 5, False)
   \<and> list_all (\<lambda>e. addresses ''docs'' ''readme.txt'' (fst e))
        (new_events empty_env (snd (BlobUploadEndpoint_handle empty_env (readme_upload None hello))))
   \<and> list_all (\<lambda>e. addresses ''docs'' ''readme.txt'' (fst e))
        (new_events empty_env (snd (BlobPresignUploadEndpoint_handle nonempty_namespace empty_env
           (Some (presign_body ''readme.txt'' 5)))))"
proof -
  have apart: "''__BLOBS'' \<noteq> ''__BLOB''" "\<not> prefix ''__BLOB:'' ''__BLOBS''"
    by simp_all
  have reserved: "''__BLOB'' = ''__BLOB'' \<or> prefix ''__BLOB:'' ''__BLOB''"
    by simp
  from apart reserved sample_upload_fields(1,2) [of None hello] sample_body_parse [of "''readme.txt''"]
    derived_keys [of "''docs''" "''readme.txt''" "''__BLOBS''" "''readme.txt''"
      "readme_upload None hello" empty_env nonempty_namespace "presign_body ''readme.txt'' 5"
      "''text/plain''" 5 False "''https://gateway.example''"]
    derived_keys [of "''docs''" "''readme.txt''" "''__BLOB''" "''readme.txt''"
      "readme_upload None hello" empty_env nonempty_namespace "presign_body ''readme.txt'' 5"
      "''text/plain''" 5 False "''https://gateway.example''"]
  show ?thesis
    by blast
qed

section \<open>Visibility and the two stores\<close>

text \<open>
  The sample blob is uploaded privately and then publicly under the same namespace and
  key: after the second upload the private store still holds the object under that key.
\<close>

theorem public_upload_leaves_private_object:
  "fst (BlobUploadEndpoint_handle
          (snd (BlobUploadEndpoint_handle empty_env (readme_upload None hello)))
          (readme_upload (Some ''true'') hello))
     = Returned (UploadJson
         \<lparr>key = ''readme.txt'', namespace = ''docs'', size' = 5, contentType = ''text/plain'',
          uploadedAt = 1700000000003, isPublic = True\<rparr>)
   \<and> R2 (snd (BlobUploadEndpoint_handle
                (snd (BlobUploadEndpoint_handle empty_env (readme_upload None hello)))
                (readme_upload (Some ''true'') hello))) ''docs:readme.txt''
     = Some \<lparr>body = hello, httpMetadata_contentType = ''text/plain''\<rparr>"
proof -
  let ?c1 = "snd (BlobUploadEndpoint_handle empty_env (readme_upload None hello))"
  let ?c2 = "snd (BlobUploadEndpoint_handle ?c1 (readme_upload (Some ''true'') hello))"
  have ne: "''docs'' \<noteq> []" "''readme.txt'' \<noteq> []"
    by simp_all
  have payload: "arrayBuffer (readme_upload pub hello) \<noteq> []" for pub
    by (simp add: sample_upload_fields hello_bytes)
  have acc: "\<not> rejects empty_env (length (trace empty_env))"
    "\<not> rejects empty_env (Suc (length (trace empty_env)))"
    by (simp_all add: empty_env_fields)
  note first = upload_accepted_env [OF sample_upload_fields(1) ne(1) sample_upload_fields(2) ne(2)
      payload [of None] acc]
  have kept: "R2 ?c1 ''docs:readme.txt'' = Some \<lparr>body = hello, httpMetadata_contentType = ''text/plain''\<rparr>"
    using first(3) by (simp add: sample_upload_fields or_default_def bucket_of_R2)
  have len: "length (trace ?c1) = 2"
    by (simp add: first(5) empty_env_fields)
  have acc1: "\<not> rejects ?c1 (length (trace ?c1))" "\<not> rejects ?c1 (Suc (length (trace ?c1)))"
    by (simp_all add: first(6) empty_env_fields)
  note second = upload_accepted_env [OF sample_upload_fields(1) ne(1) sample_upload_fields(2) ne(2)
      payload [of "Some ''true''"] acc1]
  have answer: "fst (BlobUploadEndpoint_handle ?c1 (readme_upload (Some ''true'') hello))
     = Returned (UploadJson
         \<lparr>key = ''readme.txt'', namespace = ''docs'', size' = 5, contentType = ''text/plain'',
          uploadedAt = 1700000000003, isPublic = True\<rparr>)"
    by (simp add: second(1) sample_upload_fields hello_bytes or_default_def first(7) len
        empty_env_fields)
  have "bucket_of ?c2 R2_binding = bucket_of ?c1 R2_binding"
    by (rule second(4)) (simp add: sample_upload_fields)
  then have "R2 ?c2 ''docs:readme.txt'' = R2 ?c1 ''docs:readme.txt''"
    by (simp add: bucket_of_R2)
  with kept answer show ?thesis
    by simp
qed

text \<open>
  C6, amended. For non-empty namespace, key and payload, when no collaborator call rejects:
  a direct upload writes the object to the store its visibility flag selects (the public
  store exactly when the header is \<open>true\<close>) and leaves the other store as it was, so
  the other store holds an object under that key only if it did before; the metadata
  records the flag; the download that follows reads from the selected store; and on any
  environment the download reads from the store that the stored metadata's \<open>isPublic\<close>
  selects. A record written by presign carries the flag that chose the bucket named to the
  signer: \<open>federise-objects-public\<close> exactly when \<open>isPublic\<close> is true.
\<close>

theorem upload_writes_selected_store_only:
  assumes "ns \<noteq> []" and "k \<noteq> []" and "payload \<noteq> []" and "\<forall>i. \<not> rejects c i"
  shows "let p = (pub = Some ''true'');
             sel = (if p then R2_PUBLIC_binding else R2_binding);
             other = (if p then R2_binding else R2_PUBLIC_binding);
             c1 = snd (BlobUploadEndpoint_handle c
                        \<lparr>x_blob_namespace = Some ns, x_blob_key = Some k, x_blob_public = pub,
                         content_type = ct, arrayBuffer = payload\<rparr>)
         in bucket_of c1 sel (ns @ '':'' @ k)
              = Some \<lparr>body = payload,
                      httpMetadata_contentType = or_default ct ''application/octet-stream''\<rparr>
          \<and> bucket_of c1 other = bucket_of c other
          \<and> (\<exists>md. KV c1 (''__BLOB:'' @ ns @ '':'' @ k) = Some md \<and> isPublic md = p)
          \<and> new_events c1 (snd (registerBlobDownloadRoute c1 ns k))
              = [(KV_get_op (''__BLOB:'' @ ns @ '':'' @ k), True),
                 (Bucket_get_op sel (ns @ '':'' @ k), True)]
          \<and> (\<forall>c' md. KV c' (''__BLOB:'' @ ns @ '':'' @ k) = Some md
                        \<and> \<not> rejects c' (length (trace c')) \<longrightarrow>
                (\<exists>ok. new_events c' (snd (registerBlobDownloadRoute c' ns k))
                   = [(KV_get_op (''__BLOB:'' @ ns @ '':'' @ k), True),
                      (Bucket_get_op (if isPublic md then R2_PUBLIC_binding else R2_binding)
                         (ns @ '':'' @ k), ok)]))
          \<and> (\<forall>nsv j ct' n p'.
                \<not> falsy (R2_ACCOUNT_ID c) \<and> \<not> falsy (R2_ACCESS_KEY_ID c)
                \<and> \<not> falsy (R2_SECRET_ACCESS_KEY c)
                \<and> PresignUploadRequest_safeParse nsv j = Some (ns, k, ct', n, p') \<longrightarrow>
                (\<exists>s3Client md.
                   new_events c (snd (BlobPresignUploadEndpoint_handle nsv c (Some j)))
                     = [(GetSignedUrl_op s3Client
                           \<lparr>Bucket = (if p' then ''federise-objects-public''
                                      else ''federise-objects''),
                            Key = ns @ '':'' @ k, ContentType = ct', ContentLength = n\<rparr>
                           3600, True),
                        (KV_put_op (''__BLOB:'' @ ns @ '':'' @ k) md, True)]
                 \<and> isPublic md = p'
                 \<and> KV (snd (BlobPresignUploadEndpoint_handle nsv c (Some j)))
                      (''__BLOB:'' @ ns @ '':'' @ k) = Some md))"
proof -
  let ?req = "\<lparr>x_blob_namespace = Some ns, x_blob_key = Some k, x_blob_public = pub,
               content_type = ct, arrayBuffer = payload\<rparr>"
  let ?p = "pub = Some ''true''"
  let ?sel = "if ?p then R2_PUBLIC_binding else R2_binding"
  let ?other = "if ?p then R2_binding else R2_PUBLIC_binding"
  let ?obj = "\<lparr>body = payload,
               httpMetadata_contentType = or_default ct ''application/octet-stream''\<rparr>"
  let ?md = "\<lparr>key = k, namespace = ns, size' = int (length payload),
              contentType = or_default ct ''application/octet-stream'',
              uploadedAt = clock c (Suc (length (trace c))), isPublic = ?p\<rparr>"
  let ?c1 = "snd (BlobUploadEndpoint_handle c ?req)"
  have req: "x_blob_namespace ?req = Some ns" "x_blob_key ?req = Some k" "arrayBuffer ?req \<noteq> []"
    using assms(3) by simp_all
  have acc: "\<not> rejects c (length (trace c))" "\<not> rejects c (Suc (length (trace c)))"
    using assms(4) by simp_all
  note env = upload_accepted_env [OF req(1) assms(1) req(2) assms(2) req(3) acc]
  have written: "bucket_of ?c1 ?sel (ns @ '':'' @ k) = Some ?obj"
    using env(3) by simp
  have "?other \<noteq> (if x_blob_public ?req = Some ''true'' then R2_PUBLIC_binding else R2_binding)"
    by simp
  from env(4) [OF this] have untouched: "bucket_of ?c1 ?other = bucket_of c ?other"
    by simp
  have kv: "KV ?c1 (''__BLOB:'' @ ns @ '':'' @ k) = Some ?md"
    using env(2) by simp
  then have recorded: "\<exists>md. KV ?c1 (''__BLOB:'' @ ns @ '':'' @ k) = Some md \<and> isPublic md = ?p"
    by simp
  have acc1: "\<not> rejects ?c1 (length (trace ?c1))" "\<not> rejects ?c1 (Suc (length (trace ?c1)))"
    using assms(4) by (simp_all add: env(6))
  have stored: "bucket_of ?c1 (if isPublic ?md then R2_PUBLIC_binding else R2_binding)
                  (ns @ '':'' @ k) = Some ?obj"
    using written by simp
  from download_streams [OF assms(1,2) acc1(1) kv acc1(2) stored]
  have "trace (snd (registerBlobDownloadRoute ?c1 ns k)) = trace ?c1 @
          [(KV_get_op (''__BLOB:'' @ ns @ '':'' @ k), True),
           (Bucket_get_op ?sel (ns @ '':'' @ k), True)]"
    by simp
  then have reads: "new_events ?c1 (snd (registerBlobDownloadRoute ?c1 ns k))
              = [(KV_get_op (''__BLOB:'' @ ns @ '':'' @ k), True),
                 (Bucket_get_op ?sel (ns @ '':'' @ k), True)]"
    by (rule new_events_appended)
  have general: "\<forall>c' md. KV c' (''__BLOB:'' @ ns @ '':'' @ k) = Some md
                        \<and> \<not> rejects c' (length (trace c')) \<longrightarrow>
                (\<exists>ok. new_events c' (snd (registerBlobDownloadRoute c' ns k))
                   = [(KV_get_op (''__BLOB:'' @ ns @ '':'' @ k), True),
                      (Bucket_get_op (if isPublic md then R2_PUBLIC_binding else R2_binding)
                         (ns @ '':'' @ k), ok)])"
    using download_events [OF assms(1,2)] by blast
  have presigned: "\<forall>nsv j ct' n p'.
                \<not> falsy (R2_ACCOUNT_ID c) \<and> \<not> falsy (R2_ACCESS_KEY_ID c)
                \<and> \<not> falsy (R2_SECRET_ACCESS_KEY c)
                \<and> PresignUploadRequest_safeParse nsv j = Some (ns, k, ct', n, p') \<longrightarrow>
                (\<exists>s3Client md.
                   new_events c (snd (BlobPresignUploadEndpoint_handle nsv c (Some j)))
                     = [(GetSignedUrl_op s3Client
                           \<lparr>Bucket = (if p' then ''federise-objects-public''
                                      else ''federise-objects''),
                            Key = ns @ '':'' @ k, ContentType = ct', ContentLength = n\<rparr>
                           3600, True),
                        (KV_put_op (''__BLOB:'' @ ns @ '':'' @ k) md, True)]
                 \<and> isPublic md = p'
                 \<and> KV (snd (BlobPresignUploadEndpoint_handle nsv c (Some j)))
                      (''__BLOB:'' @ ns @ '':'' @ k) = Some md)"
  proof (intro allI impI, elim conjE)
    fix nsv j ct' n p'
    assume cf: "\<not> falsy (R2_ACCOUNT_ID c)" "\<not> falsy (R2_ACCESS_KEY_ID c)"
      "\<not> falsy (R2_SECRET_ACCESS_KEY c)"
      and parsed: "PresignUploadRequest_safeParse nsv j = Some (ns, k, ct', n, p')"
    let ?pmd = "\<lparr>key = k, namespace = ns, size' = n, contentType = ct',
                 uploadedAt = clock c (Suc (length (trace c))), isPublic = p'\<rparr>"
    let ?client = "\<lparr>region = ''auto'',
        endpoint = ''https://'' @ or_default (R2_ACCOUNT_ID c) [] @ ''.r2.cloudflarestorage.com'',
        accessKeyId = or_default (R2_ACCESS_KEY_ID c) [],
        secretAccessKey = or_default (R2_SECRET_ACCESS_KEY c) []\<rparr>"
    let ?c2 = "snd (BlobPresignUploadEndpoint_handle nsv c (Some j))"
    note penv = presign_accepted_env [OF cf parsed acc]
    have calls: "new_events c ?c2
        = [(GetSignedUrl_op ?client
              \<lparr>Bucket = (if p' then ''federise-objects-public'' else ''federise-objects''),
               Key = ns @ '':'' @ k, ContentType = ct', ContentLength = n\<rparr>
              3600, True),
           (KV_put_op (''__BLOB:'' @ ns @ '':'' @ k) ?pmd, True)]"
      by (rule new_events_appended) (simp add: penv(4) sign_call_def)
    have flag: "isPublic ?pmd = p'"
      by simp
    have stored': "KV ?c2 (''__BLOB:'' @ ns @ '':'' @ k) = Some ?pmd"
      by (simp add: penv(2))
    from calls flag stored' show "\<exists>s3Client md.
                   new_events c ?c2
                     = [(GetSignedUrl_op s3Client
                           \<lparr>Bucket = (if p' then ''federise-objects-public''
                                      else ''federise-objects''),
                            Key = ns @ '':'' @ k, ContentType = ct', ContentLength = n\<rparr>
                           3600, True),
                        (KV_put_op (''__BLOB:'' @ ns @ '':'' @ k) md, True)]
                 \<and> isPublic md = p'
                 \<and> KV ?c2 (''__BLOB:'' @ ns @ '':'' @ k) = Some md"
      by blast
  qed
  show ?thesis
    unfolding Let_def using written untouched recorded reads general presigned by blast
qed

theorem upload_writes_selected_store_only_witness:
  "''docs'' \<noteq> [] \<and> ''readme.txt'' \<noteq> [] \<and> hello \<noteq> [] \<and> (\<forall>i. \<not> rejects empty_env i)
   \<and> bucket_of (snd (BlobUploadEndpoint_handle empty_env (readme_upload (Some ''true'') hello)))
        R2_PUBLIC_binding (''docs'' @ '':'' @ ''readme.txt'')
       = Some \<lparr>body = hello,
               httpMetadata_contentType = or_default (Some ''text/plain'') ''application/octet-stream''\<rparr>
   \<and> bucket_of (snd (BlobUploadEndpoint_handle empty_env (readme_upload (Some ''true'') hello)))
        R2_binding = bucket_of empty_env R2_binding
   \<and> new_events
        (snd (BlobUploadEndpoint_handle empty_env (readme_upload (Some ''true'') hello)))
        (snd (registerBlobDownloadRoute
               (snd (BlobUploadEndpoint_handle empty_env (readme_upload (Some ''true'') hello)))
               ''docs'' ''readme.txt''))
       = [(KV_get_op (''__BLOB:'' @ ''docs'' @ '':'' @ ''readme.txt''), True),
          (Bucket_get_op R2_PUBLIC_binding (''docs'' @ '':'' @ ''readme.txt''), True)]
   \<and> KV (snd (BlobUploadEndpoint_handle empty_env (readme_upload None hello)))
        (''__BLOB:'' @ ''docs'' @ '':'' @ ''readme.txt'')
       = Some \<lparr>key = ''readme.txt'', namespace = ''docs'', size' = 5, contentType = ''text/plain'',
               uploadedAt = 1700000000001, isPublic = False\<rparr>
   \<and> \<not> rejects (snd (BlobUploadEndpoint_handle empty_env (readme_upload None hello)))
          (length (trace (snd (BlobUploadEndpoint_handle empty_env (readme_upload None hello)))))
   \<and> (\<exists>ok. new_events
          (snd (BlobUploadEndpoint_handle empty_env (readme_upload None hello)))
          (snd (registerBlobDownloadRoute
                 (snd (BlobUploadEndpoint_handle empty_env (readme_upload None hello)))
                 ''docs'' ''readme.txt''))
        = [(KV_get_op (''__BLOB:'' @ ''docs'' @ '':'' @ ''readme.txt''), True),
           (Bucket_get_op R2_binding (''docs'' @ '':'' @ ''readme.txt''), ok)])
   \<and> \<not> falsy (R2_ACCOUNT_ID empty_env) \<and> \<not> falsy (R2_ACCESS_KEY_ID empty_env)
   \<and> \<not> falsy (R2_SECRET_ACCESS_KEY empty_env)
   \<and> PresignUploadRequest_safeParse nonempty_namespace (presign_body ''readme.txt'' 5)
       = Some (''docs'', ''readme.txt'', ''text/plain'', 5, False)
   \<and> (\<exists>s3Client md.
         new_events empty_env
           (snd (BlobPresignUploadEndpoint_handle nonempty_namespace empty_env
                   (Some (presign_body ''readme.txt'' 5))))
           = [(GetSignedUrl_op s3Client
                 \<lparr>Bucket = (if False then ''federise-objects-public'' else ''federise-objects''),
                  Key = ''docs'' @ '':'' @ ''readme.txt'', ContentType = ''text/plain'',
                  ContentLength = 5\<rparr>
                 3600, True),
              (KV_put_op (''__BLOB:'' @ ''docs'' @ '':'' @ ''readme.txt'') md, True)]
       \<and> isPublic md = False
       \<and> KV (snd (BlobPresignUploadEndpoint_handle nonempty_namespace empty_env
                   (Some (presign_body ''readme.txt'' 5))))
            (''__BLOB:'' @ ''docs'' @ '':'' @ ''readme.txt'') = Some md)"
proof -
  let ?c1 = "snd (BlobUploadEndpoint_handle empty_env (readme_upload None hello))"
  let ?md = "\<lparr>key = ''readme.txt'', namespace = ''docs'', size' = 5, contentType = ''text/plain'',
              uploadedAt = 1700000000001, isPublic = False\<rparr>"
  have hyps: "''docs'' \<noteq> []" "''readme.txt'' \<noteq> []" "hello \<noteq> []" "\<forall>i. \<not> rejects empty_env i"
    by (simp_all add: hello_bytes empty_env_fields)
  have sel: "(if Some ''true'' = Some ''true'' then R2_PUBLIC_binding else R2_binding) = R2_PUBLIC_binding"
    "(if Some ''true'' = Some ''true'' then R2_binding else R2_PUBLIC_binding) = R2_binding"
    "(if isPublic ?md then R2_PUBLIC_binding else R2_binding) = R2_binding"
    by simp_all
  have kv: "KV ?c1 (''__BLOB:'' @ ''docs'' @ '':'' @ ''readme.txt'') = Some ?md"
    using sample_upload_env(1) [of None] by simp
  have acc: "\<not> rejects ?c1 (length (trace ?c1))"
    by (simp add: sample_upload_env(2) empty_env_fields)
  note inst = upload_writes_selected_store_only [OF hyps, of "Some ''true''" "Some ''text/plain''",
      unfolded Let_def sel, folded readme_upload_def]
  from inst kv acc have general: "\<exists>ok. new_events ?c1 (snd (registerBlobDownloadRoute ?c1 ''docs'' ''readme.txt''))
        = [(KV_get_op (''__BLOB:'' @ ''docs'' @ '':'' @ ''readme.txt''), True),
           (Bucket_get_op (if isPublic ?md then R2_PUBLIC_binding else R2_binding)
              (''docs'' @ '':'' @ ''readme.txt''), ok)]"
    by blast
  note parse = sample_body_parse [of "''readme.txt''"]
  from inst configured_empty_env parse have presigned: "\<exists>s3Client md.
         new_events empty_env
           (snd (BlobPresignUploadEndpoint_handle nonempty_namespace empty_env
                   (Some (presign_body ''readme.txt'' 5))))
           = [(GetSignedUrl_op s3Client
                 \<lparr>Bucket = (if False then ''federise-objects-public'' else ''federise-objects''),
                  Key = ''docs'' @ '':'' @ ''readme.txt'', ContentType = ''text/plain'',
                  ContentLength = 5\<rparr>
                 3600, True),
              (KV_put_op (''__BLOB:'' @ ''docs'' @ '':'' @ ''readme.txt'') md, True)]
       \<and> isPublic md = False
       \<and> KV (snd (BlobPresignUploadEndpoint_handle nonempty_namespace empty_env
                   (Some (presign_body ''readme.txt'' 5))))
            (''__BLOB:'' @ ''docs'' @ '':'' @ ''readme.txt'') = Some md"
    by blast
  from inst hyps kv acc general [unfolded sel] configured_empty_env parse presigned show ?thesis
    by blast
qed

section \<open>Empty identifiers\<close>

text \<open>
  C7. The direct upload refuses an absent or empty namespace or key with 400 before it
  calls a store. The presign handler does not refuse the empty key: its schema asks of the
  key only that it is a string. With the signing credentials set, for every
  \<open>NamespaceValue\<close> that accepts the namespace \<open>docs\<close>, the request with namespace
  \<open>docs\<close>, the empty key, content type \<open>text/plain\<close> and size 5 is answered with a
  signed URL, and the record of the empty key is written to the metadata store; the direct
  upload of the same namespace and empty key is answered 400 and leaves the environment as
  it was.
\<close>

theorem presign_accepts_empty_key:
  assumes "nsv ''docs''"
  shows "fst (BlobPresignUploadEndpoint_handle nsv empty_env (Some (presign_body '''' 5)))
           = Returned (PresignJson ''https://acct.r2.cloudflarestorage.com/federise-objects/docs:''
               1700003600001)
       \<and> KV (snd (BlobPresignUploadEndpoint_handle nsv empty_env (Some (presign_body '''' 5))))
            ''__BLOB:docs:''
           = Some \<lparr>key = '''', namespace = ''docs'', size' = 5, contentType = ''text/plain'',
                   uploadedAt = 1700000000001, isPublic = False\<rparr>
       \<and> BlobUploadEndpoint_handle empty_env
            \<lparr>x_blob_namespace = Some ''docs'', x_blob_key = Some '''', x_blob_public = None,
             content_type = Some ''text/plain'', arrayBuffer = hello\<rparr>
           = (Returned (ErrorJson 400 400 ''Missing x-blob-namespace or x-blob-key header''),
              empty_env)"
proof -
  have "falsy (x_blob_namespace \<lparr>x_blob_namespace = Some ''docs'', x_blob_key = Some '''',
            x_blob_public = None, content_type = Some ''text/plain'', arrayBuffer = hello\<rparr>)
      \<or> falsy (x_blob_key \<lparr>x_blob_namespace = Some ''docs'', x_blob_key = Some '''',
            x_blob_public = None, content_type = Some ''text/plain'', arrayBuffer = hello\<rparr>)"
    by (simp add: falsy_def)
  from upload_missing_identifier [OF this] sample_presign [where nsv = nsv and k = "''''", OF assms]
  show ?thesis
    by simp
qed

theorem presign_accepts_empty_key_witness:
  "nonempty_namespace ''docs''
   \<and> fst (BlobPresignUploadEndpoint_handle nonempty_namespace empty_env
            (Some (presign_body '''' 5)))
       = Returned (PresignJson ''https://acct.r2.cloudflarestorage.com/federise-objects/docs:''
           1700003600001)
   \<and> KV (snd (BlobPresignUploadEndpoint_handle nonempty_namespace empty_env
               (Some (presign_body '''' 5)))) ''__BLOB:docs:''
       = Some \<lparr>key = '''', namespace = ''docs'', size' = 5, contentType = ''text/plain'',
               uploadedAt = 1700000000001, isPublic = False\<rparr>"
  using presign_accepts_empty_key [where nsv = nonempty_namespace, OF nonempty_namespace_docs]
    nonempty_namespace_docs
  by blast

section \<open>Presign with a size that is not a positive integer\<close>

text \<open>
  Without signing credentials a presign request of size 0 is answered 503, not 400.
\<close>

theorem presign_bad_size_unconfigured:
  "fst (BlobPresignUploadEndpoint_handle nonempty_namespace unconfigured_env
          (Some (presign_body ''readme.txt'' 0)))
     = Returned (ErrorJson 503 503 ''R2 credentials not configured for presigned URLs'')"
  by (rule presign_unconfigured [THEN arg_cong [where f = fst], simplified])
     (simp add: unconfigured_env_fields falsy_def)

text \<open>
  C8, amended. When the signing credentials are set, a presign request whose JSON body has
  a \<open>size\<close> that is a number but not positive or not an integer is answered 400
  ``Invalid request body'', and the handler makes no call: the signer is not invoked and no
  metadata record is written.
\<close>

theorem presign_rejects_bad_size:
  assumes "\<not> falsy (R2_ACCOUNT_ID c)" and "\<not> falsy (R2_ACCESS_KEY_ID c)"
    and "\<not> falsy (R2_SECRET_ACCESS_KEY c)"
    and "map_of props ''size'' = Some (JNum r)" and "r \<le> 0 \<or> \<not> is_integer r"
  shows "BlobPresignUploadEndpoint_handle nsv c (Some (JObj props))
           = (Returned (ErrorJson 400 400 ''Invalid request body''), c)
       \<and> new_events c (snd (BlobPresignUploadEndpoint_handle nsv c (Some (JObj props)))) = []"
proof -
  have "PresignUploadRequest_safeParse nsv (JObj props) = None"
    using assms(4,5) by (rule safeParse_bad_size)
  from presign_invalid_body [OF assms(1-3) this] show ?thesis
    by (simp add: new_events_def)
qed

theorem presign_rejects_bad_size_witness:
  "\<not> falsy (R2_ACCOUNT_ID empty_env) \<and> \<not> falsy (R2_ACCESS_KEY_ID empty_env)
   \<and> \<not> falsy (R2_SECRET_ACCESS_KEY empty_env)
   \<and> map_of [(''namespace'', JStr ''docs''), (''key'', JStr ''readme.txt''),
              (''contentType'', JStr ''text/plain''), (''size'', JNum 0)] ''size'' = Some (JNum 0)
   \<and> ((0::rat) \<le> 0 \<or> \<not> is_integer 0)
   \<and> BlobPresignUploadEndpoint_handle nonempty_namespace empty_env
         (Some (JObj [(''namespace'', JStr ''docs''), (''key'', JStr ''readme.txt''),
                      (''contentType'', JStr ''text/plain''), (''size'', JNum 0)]))
       = (Returned (ErrorJson 400 400 ''Invalid request body''), empty_env)
   \<and> map_of [(''namespace'', JStr ''docs''), (''key'', JStr ''readme.txt''),
              (''contentType'', JStr ''text/plain''), (''size'', JNum (5 / 2))] ''size''
       = Some (JNum (5 / 2))
   \<and> ((5 / 2 :: rat) \<le> 0 \<or> \<not> is_integer (5 / 2))
   \<and> BlobPresignUploadEndpoint_handle nonempty_namespace empty_env
         (Some (JObj [(''namespace'', JStr ''docs''), (''key'', JStr ''readme.txt''),
                      (''contentType'', JStr ''text/plain''), (''size'', JNum (5 / 2))]))
       = (Returned (ErrorJson 400 400 ''Invalid request body''), empty_env)"
proof -
  have zero: "(0::rat) \<le> 0 \<or> \<not> is_integer 0"
    by simp
  have half: "(5 / 2 :: rat) \<le> 0 \<or> \<not> is_integer (5 / 2)"
    using half_not_integer by simp
  from configured_empty_env zero half
    presign_rejects_bad_size [OF configured_empty_env sample_body_size [of "''readme.txt''" 0] zero,
      where nsv = nonempty_namespace]
    presign_rejects_bad_size [OF configured_empty_env sample_body_size [of "''readme.txt''" "5 / 2"] half,
      where nsv = nonempty_namespace]
    sample_body_size [of "''readme.txt''" 0] sample_body_size [of "''readme.txt''" "5 / 2"]
  show ?thesis
    by blast
qed

section \<open>Presign without signing credentials\<close>

text \<open>
  C9. When one of the three signing credentials is absent or empty, the presign handler
  answers 503 for every request body and returns the environment it was given: it calls
  neither the signer nor the metadata store, and the metadata store is unchanged.
\<close>

theorem presign_unconfigured_no_effect:
  assumes "falsy (R2_ACCOUNT_ID c) \<or> falsy (R2_ACCESS_KEY_ID c) \<or> falsy (R2_SECRET_ACCESS_KEY c)"
  shows "fst (BlobPresignUploadEndpoint_handle nsv c rb)
           = Returned (ErrorJson 503 503 ''R2 credentials not configured for presigned URLs'')
       \<and> snd (BlobPresignUploadEndpoint_handle nsv c rb) = c
       \<and> new_events c (snd (BlobPresignUploadEndpoint_handle nsv c rb)) = []
       \<and> KV (snd (BlobPresignUploadEndpoint_handle nsv c rb)) = KV c"
  by (simp add: presign_unconfigured [OF assms] new_events_def)

theorem presign_unconfigured_no_effect_witness:
  "(falsy (R2_ACCOUNT_ID unconfigured_env) \<or> falsy (R2_ACCESS_KEY_ID unconfigured_env)
      \<or> falsy (R2_SECRET_ACCESS_KEY unconfigured_env))
   \<and> fst (BlobPresignUploadEndpoint_handle nonempty_namespace unconfigured_env
            (Some (presign_body ''readme.txt'' 5)))
       = Returned (ErrorJson 503 503 ''R2 credentials not configured for presigned URLs'')
   \<and> snd (BlobPresignUploadEndpoint_handle nonempty_namespace unconfigured_env
            (Some (presign_body ''readme.txt'' 5))) = unconfigured_env
   \<and> new_events unconfigured_env (snd (BlobPresignUploadEndpoint_handle nonempty_namespace
            unconfigured_env (Some (presign_body ''readme.txt'' 5)))) = []
   \<and> KV (snd (BlobPresignUploadEndpoint_handle nonempty_namespace unconfigured_env
            (Some (presign_body ''readme.txt'' 5)))) = KV unconfigured_env"
proof -
  have hyp: "falsy (R2_ACCOUNT_ID unconfigured_env) \<or> falsy (R2_ACCESS_KEY_ID unconfigured_env)
      \<or> falsy (R2_SECRET_ACCESS_KEY unconfigured_env)"
    by (simp add: unconfigured_env_fields falsy_def)
  from presign_unconfigured_no_effect [OF hyp] hyp show ?thesis
    by blast
qed

section \<open>Order of the checks of a presign\<close>

text \<open>
  C10. The credentials are checked before the body is read: with a credential absent or
  empty the answer is 503 for every body, also one that is not JSON (\<open>None\<close>) or has a
  size that is not positive, and never a 400; the handler answers 400 only when all three
  credentials are set.
\<close>

theorem presign_checks_credentials_first:
  "(falsy (R2_ACCOUNT_ID c) \<or> falsy (R2_ACCESS_KEY_ID c) \<or> falsy (R2_SECRET_ACCESS_KEY c) \<longrightarrow>
      fst (BlobPresignUploadEndpoint_handle nsv c rb)
        = Returned (ErrorJson 503 503 ''R2 credentials not configured for presigned URLs'')
      \<and> (\<forall>code msg. fst (BlobPresignUploadEndpoint_handle nsv c rb) \<noteq> Returned (ErrorJson 400 code msg)))
   \<and> ((\<exists>code msg. fst (BlobPresignUploadEndpoint_handle nsv c rb) = Returned (ErrorJson 400 code msg)) \<longrightarrow>
        \<not> falsy (R2_ACCOUNT_ID c) \<and> \<not> falsy (R2_ACCESS_KEY_ID c) \<and> \<not> falsy (R2_SECRET_ACCESS_KEY c))"
proof (cases "falsy (R2_ACCOUNT_ID c) \<or> falsy (R2_ACCESS_KEY_ID c) \<or> falsy (R2_SECRET_ACCESS_KEY c)")
  case True
  then show ?thesis
    by (simp add: presign_unconfigured)
next
  case False
  then show ?thesis
    by simp
qed

theorem presign_checks_credentials_first_witness:
  "(falsy (R2_ACCOUNT_ID unconfigured_env) \<or> falsy (R2_ACCESS_KEY_ID unconfigured_env)
      \<or> falsy (R2_SECRET_ACCESS_KEY unconfigured_env))
   \<and> fst (BlobPresignUploadEndpoint_handle nonempty_namespace unconfigured_env None)
       = Returned (ErrorJson 503 503 ''R2 credentials not configured for presigned URLs'')
   \<and> fst (BlobPresignUploadEndpoint_handle nonempty_namespace unconfigured_env
            (Some (presign_body ''readme.txt'' 0)))
       = Returned (ErrorJson 503 503 ''R2 credentials not configured for presigned URLs'')
   \<and> (\<exists>code msg. fst (BlobPresignUploadEndpoint_handle nonempty_namespace empty_env
            (Some (presign_body ''readme.txt'' 0))) = Returned (ErrorJson 400 code msg))
   \<and> \<not> falsy (R2_ACCOUNT_ID empty_env) \<and> \<not> falsy (R2_ACCESS_KEY_ID empty_env)
   \<and> \<not> falsy (R2_SECRET_ACCESS_KEY empty_env)"
proof -
  have hyp: "falsy (R2_ACCOUNT_ID unconfigured_env) \<or> falsy (R2_ACCESS_KEY_ID unconfigured_env)
      \<or> falsy (R2_SECRET_ACCESS_KEY unconfigured_env)"
    by (simp add: unconfigured_env_fields falsy_def)
  have "PresignUploadRequest_safeParse nonempty_namespace (presign_body ''readme.txt'' 0) = None"
    unfolding presign_body_def by (rule safeParse_bad_size [OF sample_body_size]) simp
  from presign_invalid_body [OF configured_empty_env this]
  have bad: "\<exists>code msg. fst (BlobPresignUploadEndpoint_handle nonempty_namespace empty_env
            (Some (presign_body ''readme.txt'' 0))) = Returned (ErrorJson 400 code msg)"
    by simp
  from hyp bad
    presign_checks_credentials_first [of unconfigured_env nonempty_namespace None]
    presign_checks_credentials_first [of unconfigured_env nonempty_namespace
      "Some (presign_body ''readme.txt'' 0)"]
    presign_checks_credentials_first [of empty_env nonempty_namespace
      "Some (presign_body ''readme.txt'' 0)"]
  show ?thesis
    by blast
qed

end
